theory Spec2Isabelle
  imports Complex_Main
begin

section \<open>Python strings\<close>

text \<open>
  A Python \<open>str\<close> is a \<^typ>\<open>string\<close>. The tool arguments the server validates are
  ASCII words (sides, order types, timeframe strings, option symbols), and the model
  is about ASCII text: \<open>lower\<close>, \<open>upper\<close>, \<open>strip\<close> and the regular expression's
  \<open>\d\<close> treat every character outside ASCII as an ordinary character.
\<close>

definition lower_char :: "char \<Rightarrow> char" where
  "lower_char c =
     (case map_of (zip ''ABCDEFGHIJKLMNOPQRSTUVWXYZ'' ''abcdefghijklmnopqrstuvwxyz'') c of
        Some d \<Rightarrow> d
      | None \<Rightarrow> c)"

definition upper_char :: "char \<Rightarrow> char" where
  "upper_char c =
     (case map_of (zip ''abcdefghijklmnopqrstuvwxyz'' ''ABCDEFGHIJKLMNOPQRSTUVWXYZ'') c of
        Some d \<Rightarrow> d
      | None \<Rightarrow> c)"

text \<open>\<open>s.lower()\<close> and \<open>s.upper()\<close>.\<close>

definition lower :: "string \<Rightarrow> string" where
  "lower s = map lower_char s"

definition upper :: "string \<Rightarrow> string" where
  "upper s = map upper_char s"

text \<open>\<open>c.isspace()\<close> on ASCII: tab, line feed, vertical tab, form feed, carriage
  return, the four separators 0x1C to 0x1F, and the space.\<close>

definition is_space :: "char \<Rightarrow> bool" where
  "is_space c \<longleftrightarrow> c \<in> set [CHR 0x09, CHR 0x0A, CHR 0x0B, CHR 0x0C, CHR 0x0D,
                          CHR 0x1C, CHR 0x1D, CHR 0x1E, CHR 0x1F, CHR 0x20]"

text \<open>\<open>s.strip()\<close>: whitespace removed at both ends.\<close>

definition strip :: "string \<Rightarrow> string" where
  "strip s = rev (dropWhile is_space (rev (dropWhile is_space s)))"

definition is_digit :: "char \<Rightarrow> bool" where
  "is_digit c \<longleftrightarrow> c \<in> set ''0123456789''"

text \<open>\<open>int(ds)\<close> for a string of decimal digits.\<close>

definition int_of_digits :: "string \<Rightarrow> int" where
  "int_of_digits ds = foldl (\<lambda>n c. 10 * n + (int (of_char c) - 48)) 0 ds"

text \<open>\<open>s.startswith(p)\<close>.\<close>

fun startswith :: "string \<Rightarrow> string \<Rightarrow> bool" where
  "startswith [] s = True"
| "startswith (p # ps) [] = False"
| "startswith (p # ps) (x # xs) = (p = x \<and> startswith ps xs)"

text \<open>\<open>sub in s\<close>: \<open>sub\<close> occurs in \<open>s\<close> as a contiguous substring.\<close>

fun contains :: "string \<Rightarrow> string \<Rightarrow> bool" where
  "contains sub [] = (sub = [])"
| "contains sub (x # xs) = (startswith sub (x # xs) \<or> contains sub xs)"

text \<open>\<open>s.split(c)\<close> for a one-character separator: the pieces between the
  occurrences of \<open>c\<close>, always at least one piece.\<close>

fun split :: "char \<Rightarrow> string \<Rightarrow> string list" where
  "split c [] = [[]]"
| "split c (x # xs) =
     (if x = c then [] # split c xs
      else (case split c xs of [] \<Rightarrow> [[x]] | w # ws \<Rightarrow> (x # w) # ws))"

text \<open>\<open>str(n)\<close> for a Python \<open>int\<close>.\<close>

fun str_nat :: "nat \<Rightarrow> string" where
  "str_nat n = (if n < 10 then [''0123456789'' ! n] else str_nat (n div 10) @ [''0123456789'' ! (n mod 10)])"

definition str_int :: "int \<Rightarrow> string" where
  "str_int i = (if i < 0 then CHR ''-'' # str_nat (nat (- i)) else str_nat (nat i))"

section \<open>Timeframe parser\<close>

datatype TimeFrameUnit = Minute | Hour | Day | Week | Month

text \<open>
  Modelled from the spec: the \<open>TimeFrame\<close> value type of the brokerage library, which
  is imported by the source and not part of it. Following section 3 of the
  specification it is the pair of an amount and a unit; its constructor stores the two
  values, and the library constants \<open>TimeFrame.Minute\<close>, ..., \<open>TimeFrame.Month\<close> are
  the values with amount 1.
\<close>

record TimeFrame =
  amount :: int
  unit :: TimeFrameUnit

definition predefined_timeframes :: "string \<Rightarrow> TimeFrame option" where
  "predefined_timeframes = map_of
     [(''1Min'', \<lparr>amount = 1, unit = Minute\<rparr>),
      (''1Hour'', \<lparr>amount = 1, unit = Hour\<rparr>),
      (''1Day'', \<lparr>amount = 1, unit = Day\<rparr>),
      (''1Week'', \<lparr>amount = 1, unit = Week\<rparr>),
      (''1Month'', \<lparr>amount = 1, unit = Month\<rparr>)]"

definition unit_mapping :: "string \<Rightarrow> TimeFrameUnit option" where
  "unit_mapping = map_of
     [(''min'', Minute), (''hour'', Hour), (''day'', Day), (''week'', Week), (''month'', Month)]"

text \<open>
  \<open>re.match(r"^(\d+)(Min|Hour|Day|Week|Month)$", s, re.IGNORECASE)\<close>: the two groups,
  or \<open>None\<close>. The greedy \<open>\d+\<close> takes every leading digit (with fewer, a digit would
  have to start the unit word); the rest must be one of the five words in any case,
  and \<open>$\<close> also matches before one final line feed.
\<close>

definition re_match_timeframe :: "string \<Rightarrow> (string \<times> string) option" where
  "re_match_timeframe s =
     (let ds = takeWhile is_digit s;
          rest = dropWhile is_digit s;
          word = (if rest \<noteq> [] \<and> last rest = CHR 0x0A then butlast rest else rest)
      in if ds \<noteq> [] \<and> lower word \<in> set [''min'', ''hour'', ''day'', ''week'', ''month'']
         then Some (ds, word) else None)"

text \<open>
  \<open>parse_timeframe_with_enums\<close>. On a string no statement of the modelled body
  raises, so the \<open>except\<close> clause, which returns \<open>None\<close>, has no branch here. (The one
  error the interpreter itself can raise there, the refusal of \<open>int\<close> to convert more
  than some thousands of digits, would be caught by it.)
\<close>

definition parse_timeframe_with_enums :: "string \<Rightarrow> TimeFrame option" where
  "parse_timeframe_with_enums timeframe_str =
     (let s = strip timeframe_str in
      case predefined_timeframes s of
        Some tf \<Rightarrow> Some tf
      | None \<Rightarrow>
         (case re_match_timeframe s of
            None \<Rightarrow> None
          | Some (g1, g2) \<Rightarrow>
             (let amount = int_of_digits g1; unit_str = lower g2 in
              case unit_mapping unit_str of
                None \<Rightarrow> None
              | Some u \<Rightarrow>
                 if u = Minute \<and> amount > 59 then None
                 else if u = Hour \<and> amount > 23 then None
                 else if u \<in> set [Day, Week, Month] \<and> amount > 365 then None
                 else Some \<lparr>amount = amount, unit = u\<rparr>)))"

text \<open>
  The part of the parser's body after the shortcut table, with the three range checks
  read as one ceiling per unit (section 3 of the specification): the proofs show that
  the shortcut table agrees with it.
\<close>

definition unit_ceiling :: "TimeFrameUnit \<Rightarrow> int" where
  "unit_ceiling u = (case u of Minute \<Rightarrow> 59 | Hour \<Rightarrow> 23 | _ \<Rightarrow> 365)"

definition unit_words :: "string list" where
  "unit_words = [''min'', ''hour'', ''day'', ''week'', ''month'']"

definition parse_after_shortcuts :: "string \<Rightarrow> TimeFrame option" where
  "parse_after_shortcuts s =
     (case re_match_timeframe s of
        None \<Rightarrow> None
      | Some (g1, g2) \<Rightarrow>
         (case unit_mapping (lower g2) of
            None \<Rightarrow> None
          | Some u \<Rightarrow>
             if int_of_digits g1 \<le> unit_ceiling u then Some \<lparr>amount = int_of_digits g1, unit = u\<rparr>
             else None))"

section \<open>Brokerage values\<close>

datatype OrderSide = BUY | SELL

datatype OrderType = MARKET | LIMIT | STOP | STOP_LIMIT | TRAILING_STOP

datatype TimeInForce = DAY | GTC | OPG | CLS | IOC | FOK

datatype OrderClass = SIMPLE | BRACKET | OCO | OTO | MLEG

text \<open>
  A Python value of any type, for the one argument whose type the source tests at run
  time (\<open>ratio_qty\<close>). A \<open>float\<close> is only carried by the code under study, never
  computed with; the model takes a real number for it, here and for prices.
\<close>

datatype pyval = PyInt int | PyBool bool | PyFloat real | PyStr string | PyNone

text \<open>\<open>isinstance(v, int)\<close> holds of an \<open>int\<close> and of a \<open>bool\<close> (a subclass of
  \<open>int\<close>); \<open>int_value\<close> is the integer such a value compares as.\<close>

fun int_value :: "pyval \<Rightarrow> int option" where
  "int_value (PyInt n) = Some n"
| "int_value (PyBool b) = Some (if b then 1 else 0)"
| "int_value _ = None"

text \<open>
  Modelled from the spec: the request classes of the brokerage library
  (\<open>OptionLegRequest\<close>, \<open>MarketOrderRequest\<close>, \<open>LimitOrderRequest\<close>,
  \<open>StopOrderRequest\<close>, \<open>StopLimitOrderRequest\<close>, \<open>TrailingStopOrderRequest\<close>), which
  the source imports. Each is the value of the keyword arguments it is built from; a
  keyword the source does not pass is \<open>None\<close>. After the common fields a
  \<open>LimitOrderRequest\<close> has its \<open>limit_price\<close>, a \<open>StopOrderRequest\<close> its
  \<open>stop_price\<close>, a \<open>StopLimitOrderRequest\<close> its \<open>stop_price\<close> and \<open>limit_price\<close>,
  a \<open>TrailingStopOrderRequest\<close> its \<open>trail_price\<close> and \<open>trail_percent\<close>. Checks
  that the library's constructors may make on their arguments are not in the source
  and not in the model.
\<close>

record OptionLegRequest =
  leg_symbol :: string
  leg_side :: OrderSide
  leg_ratio_qty :: pyval

record order_fields =
  req_symbol :: "string option"
  req_qty :: real
  req_side :: "OrderSide option"
  req_type :: OrderType
  req_time_in_force :: TimeInForce
  req_extended_hours :: bool
  req_client_order_id :: string
  req_order_class :: "OrderClass option"
  req_legs :: "OptionLegRequest list option"

datatype OrderRequest =
    MarketOrderRequest order_fields
  | LimitOrderRequest order_fields real
  | StopOrderRequest order_fields real
  | StopLimitOrderRequest order_fields real real
  | TrailingStopOrderRequest order_fields "real option" "real option"

text \<open>
  Exceptions are values. \<open>APIError\<close> is the brokerage client's error with its message;
  \<open>IndexError\<close> is a list index out of range; any other exception is
  \<open>OtherException\<close> with its text. \<open>exn_str\<close> is \<open>str(e)\<close>.
\<close>

datatype exn = APIError string | IndexError | OtherException string

fun exn_str :: "exn \<Rightarrow> string" where
  "exn_str (APIError m) = m"
| "exn_str IndexError = ''list index out of range''"
| "exn_str (OtherException m) = m"

text \<open>\<open>xs[i]\<close> for \<open>i \<ge> 0\<close>.\<close>

definition py_index :: "'a list \<Rightarrow> nat \<Rightarrow> exn + 'a" where
  "py_index xs i = (if i < length xs then Inr (xs ! i) else Inl IndexError)"

text \<open>
  The trading client: \<open>trade_client.submit_order(order_data)\<close> returns an order of the
  brokerage (type \<open>'o\<close>) or raises. What a tool returns is a string; when the order was
  placed that string is the formatted order (presentation, outside the request
  translation layer), which the model represents by the order itself.
\<close>

type_synonym 'o client = "OrderRequest \<Rightarrow> exn + 'o"

datatype 'o reply = Message string | OrderDetails 'o

section \<open>Stock order tool\<close>

text \<open>The \<open>time_in_force\<close> argument: a \<open>TimeInForce\<close>, a string, or a value of another
  type, given by the text \<open>type(time_in_force)\<close> prints as.\<close>

datatype tif_arg = TifEnum TimeInForce | TifStr string | TifOther string

text \<open>\<open>client_order_id or f"order_{int(time.time())}"\<close>; \<open>now\<close> is
  \<open>int(time.time())\<close>.\<close>

definition client_order_id_or_default :: "string option \<Rightarrow> int \<Rightarrow> string" where
  "client_order_id_or_default client_order_id now =
     (case client_order_id of
        Some s \<Rightarrow> if s \<noteq> [] then s else ''order_'' @ str_int now
      | None \<Rightarrow> ''order_'' @ str_int now)"

text \<open>Lines 819 to 885 of \<open>place_stock_order\<close>: the request for the order type, from
  the side and the time in force already converted, or the returned message.\<close>

definition order_data_for_type ::
  "int \<Rightarrow> string \<Rightarrow> OrderSide \<Rightarrow> real \<Rightarrow> string \<Rightarrow> TimeInForce \<Rightarrow> real option \<Rightarrow> real option \<Rightarrow>
   real option \<Rightarrow> real option \<Rightarrow> bool \<Rightarrow> string option \<Rightarrow> string + OrderRequest" where
  "order_data_for_type now symbol order_side quantity order_type tif_enum
      limit_price stop_price trail_price trail_percent extended_hours client_order_id =
     (let order_type_upper = upper order_type;
          common = (\<lambda>t. \<lparr>req_symbol = Some symbol, req_qty = quantity, req_side = Some order_side,
                     req_type = t, req_time_in_force = tif_enum,
                     req_extended_hours = extended_hours,
                     req_client_order_id = client_order_id_or_default client_order_id now,
                     req_order_class = None, req_legs = None\<rparr>)
      in
      if order_type_upper = ''MARKET'' then Inr (MarketOrderRequest (common MARKET))
      else if order_type_upper = ''LIMIT'' then
        (case limit_price of
           None \<Rightarrow> Inl ''limit_price is required for LIMIT orders.''
         | Some lp \<Rightarrow> Inr (LimitOrderRequest (common LIMIT) lp))
      else if order_type_upper = ''STOP'' then
        (case stop_price of
           None \<Rightarrow> Inl ''stop_price is required for STOP orders.''
         | Some sp \<Rightarrow> Inr (StopOrderRequest (common STOP) sp))
      else if order_type_upper = ''STOP_LIMIT'' then
        (case (stop_price, limit_price) of
           (Some sp, Some lp) \<Rightarrow> Inr (StopLimitOrderRequest (common STOP_LIMIT) sp lp)
         | _ \<Rightarrow> Inl ''Both stop_price and limit_price are required for STOP_LIMIT orders.'')
      else if order_type_upper = ''TRAILING_STOP'' then
        (if trail_price = None \<and> trail_percent = None
         then Inl ''Either trail_price or trail_percent is required for TRAILING_STOP orders.''
         else Inr (TrailingStopOrderRequest (common TRAILING_STOP) trail_price trail_percent))
      else Inl (''Invalid order type: '' @ order_type @
                ''. Must be one of: MARKET, LIMIT, STOP, STOP_LIMIT, TRAILING_STOP.''))"

text \<open>Lines 786 to 885: side, time in force, then the order type. \<open>Inl\<close> is the
  message the tool returns without submitting.\<close>

definition build_stock_order ::
  "int \<Rightarrow> string \<Rightarrow> string \<Rightarrow> real \<Rightarrow> string \<Rightarrow> tif_arg \<Rightarrow> real option \<Rightarrow> real option \<Rightarrow>
   real option \<Rightarrow> real option \<Rightarrow> bool \<Rightarrow> string option \<Rightarrow> string + OrderRequest" where
  "build_stock_order now symbol side quantity order_type time_in_force
      limit_price stop_price trail_price trail_percent extended_hours client_order_id =
     (case (if lower side = ''buy'' then Some BUY
            else if lower side = ''sell'' then Some SELL else None) of
        None \<Rightarrow> Inl (''Invalid order side: '' @ side @ ''. Must be 'buy' or 'sell'.'')
      | Some order_side \<Rightarrow>
         (case (case time_in_force of
                  TifEnum t \<Rightarrow> Inr t
                | TifStr s \<Rightarrow>
                   (let time_in_force_upper = upper s in
                    if time_in_force_upper = ''DAY'' then Inr DAY
                    else if time_in_force_upper = ''GTC'' then Inr GTC
                    else if time_in_force_upper = ''OPG'' then Inr OPG
                    else if time_in_force_upper = ''CLS'' then Inr CLS
                    else if time_in_force_upper = ''IOC'' then Inr IOC
                    else if time_in_force_upper = ''FOK'' then Inr FOK
                    else Inl (''Invalid time_in_force: '' @ s @
                              ''. Valid options are: DAY, GTC, OPG, CLS, IOC, FOK''))
                | TifOther ty \<Rightarrow>
                   Inl (''Invalid time_in_force type: '' @ ty @
                        ''. Must be string or TimeInForce enum.'')) of
            Inl msg \<Rightarrow> Inl msg
          | Inr tif_enum \<Rightarrow>
             order_data_for_type now symbol order_side quantity order_type tif_enum
               limit_price stop_price trail_price trail_percent extended_hours client_order_id))"

text \<open>
  \<open>place_stock_order\<close>: the reply and the requests passed to \<open>submit_order\<close>, in order.
  The whole body is inside \<open>try\<close>; \<open>except Exception\<close> turns whatever
  \<open>submit_order\<close> raises into a message.
\<close>

definition place_stock_order ::
  "'o client \<Rightarrow> int \<Rightarrow> string \<Rightarrow> string \<Rightarrow> real \<Rightarrow> string \<Rightarrow> tif_arg \<Rightarrow> real option \<Rightarrow> real option \<Rightarrow>
   real option \<Rightarrow> real option \<Rightarrow> bool \<Rightarrow> string option \<Rightarrow> 'o reply \<times> OrderRequest list" where
  "place_stock_order trade_client now symbol side quantity order_type time_in_force
      limit_price stop_price trail_price trail_percent extended_hours client_order_id =
     (case build_stock_order now symbol side quantity order_type time_in_force
             limit_price stop_price trail_price trail_percent extended_hours client_order_id of
        Inl msg \<Rightarrow> (Message msg, [])
      | Inr order_data \<Rightarrow>
         (case trade_client order_data of
            Inr order \<Rightarrow> (OrderDetails order, [order_data])
          | Inl e \<Rightarrow> (Message (''Error placing order: '' @ exn_str e), [order_data])))"

section \<open>Option order tool\<close>

text \<open>
  A leg dictionary as the tool's docstring describes it: the keys \<open>symbol\<close>, \<open>side\<close>
  and \<open>ratio_qty\<close> are present, the symbol and the side are strings, and the ratio
  quantity is a Python value of any type, since the code tests its type.
\<close>

record leg =
  symbol :: string
  side :: string
  ratio_qty :: pyval

definition validate_option_order_inputs :: "leg list \<Rightarrow> int \<Rightarrow> TimeInForce \<Rightarrow> string option" where
  "validate_option_order_inputs legs quantity time_in_force =
     (if legs = [] then Some ''Error: No option legs provided''
      else if length legs > 4 then Some ''Error: Maximum of 4 legs allowed for option orders''
      else if quantity \<le> 0 then Some ''Error: Quantity must be positive''
      else if time_in_force \<noteq> DAY
        then Some ''Error: Only DAY time_in_force is supported for options trading''
      else None)"

text \<open>The \<open>order_class\<close> argument: a string, an \<open>OrderClass\<close>, or \<open>None\<close>.\<close>

datatype order_class_arg = ClassStr string | ClassEnum OrderClass | ClassNone

definition class_mapping :: "string \<Rightarrow> OrderClass option" where
  "class_mapping = map_of
     [(''SIMPLE'', SIMPLE), (''BRACKET'', BRACKET), (''OCO'', OCO), (''OTO'', OTO), (''MLEG'', MLEG)]"

text \<open>\<open>_convert_order_class_string\<close>: \<open>Inl\<close> is the returned message, \<open>Inr\<close> the
  order class or \<open>None\<close>.\<close>

definition convert_order_class_string :: "order_class_arg \<Rightarrow> string + OrderClass option" where
  "convert_order_class_string order_cls =
     (case order_cls of
        ClassStr s \<Rightarrow>
          (case class_mapping (upper s) of
             Some c \<Rightarrow> Inr (Some c)
           | None \<Rightarrow> Inl (''Invalid order class: '' @ s @
                          ''. Must be one of: simple, bracket, oco, oto, mleg''))
      | ClassEnum c \<Rightarrow> Inr (Some c)
      | ClassNone \<Rightarrow> Inr None)"

text \<open>The loop of \<open>_process_option_legs\<close>, with \<open>order_legs\<close> as accumulator: the first
  leg that fails a check ends it with the message.\<close>

fun process_option_legs_loop :: "OptionLegRequest list \<Rightarrow> leg list \<Rightarrow> string + OptionLegRequest list" where
  "process_option_legs_loop order_legs [] = Inr order_legs"
| "process_option_legs_loop order_legs (l # rest) =
     (if (case int_value (ratio_qty l) of None \<Rightarrow> True | Some n \<Rightarrow> n \<le> 0)
      then Inl (''Error: Invalid ratio_qty for leg '' @ symbol l @ ''. Must be positive integer.'')
      else if lower (side l) = ''buy''
        then process_option_legs_loop
               (order_legs @ [\<lparr>leg_symbol = symbol l, leg_side = BUY, leg_ratio_qty = ratio_qty l\<rparr>]) rest
      else if lower (side l) = ''sell''
        then process_option_legs_loop
               (order_legs @ [\<lparr>leg_symbol = symbol l, leg_side = SELL, leg_ratio_qty = ratio_qty l\<rparr>]) rest
      else Inl (''Invalid order side: '' @ side l @ ''. Must be 'buy' or 'sell'.''))"

definition process_option_legs :: "leg list \<Rightarrow> string + OptionLegRequest list" where
  "process_option_legs legs = process_option_legs_loop [] legs"

text \<open>\<open>_create_option_market_order_request\<close>; \<open>order_legs[0]\<close> raises on an empty
  list.\<close>

definition create_option_market_order_request ::
  "int \<Rightarrow> OptionLegRequest list \<Rightarrow> OrderClass \<Rightarrow> int \<Rightarrow> TimeInForce \<Rightarrow> bool \<Rightarrow> exn + OrderRequest" where
  "create_option_market_order_request now order_legs order_cls quantity time_in_force extended_hours =
     (if order_cls = MLEG then
        Inr (MarketOrderRequest
          \<lparr>req_symbol = None, req_qty = of_int quantity, req_side = None, req_type = MARKET,
           req_time_in_force = time_in_force, req_extended_hours = extended_hours,
           req_client_order_id = ''mcp_opt_'' @ str_int now,
           req_order_class = Some order_cls, req_legs = Some order_legs\<rparr>)
      else
        (case py_index order_legs 0 of
           Inl e \<Rightarrow> Inl e
         | Inr first \<Rightarrow>
            Inr (MarketOrderRequest
              \<lparr>req_symbol = Some (leg_symbol first), req_qty = of_int quantity,
               req_side = Some (leg_side first), req_type = MARKET,
               req_time_in_force = time_in_force, req_extended_hours = extended_hours,
               req_client_order_id = ''mcp_opt_'' @ str_int now,
               req_order_class = Some order_cls, req_legs = None\<rparr>)))"

text \<open>
  \<open>_analyze_option_strategy_type\<close>: the flags \<open>(is_short_straddle, is_short_strangle,
  is_short_calendar)\<close>. Every list index of the source is a \<open>py_index\<close>, so an index
  out of range is the value \<open>Inl IndexError\<close>.
\<close>

definition analyze_option_strategy_type ::
  "OptionLegRequest list \<Rightarrow> OrderClass \<Rightarrow> exn + (bool \<times> bool \<times> bool)" where
  "analyze_option_strategy_type order_legs order_cls =
     (if order_cls = MLEG \<and> length order_legs = 2 then
        (let l0 = order_legs ! 0; l1 = order_legs ! 1;
             both_short = (leg_side l0 = SELL \<and> leg_side l1 = SELL)
         in
         if both_short then
           (case (py_index (split CHR ''C'' (leg_symbol l0)) 0,
                  py_index (split CHR ''P'' (leg_symbol l1)) 0) of
              (Inr p0, Inr p1) \<Rightarrow>
                (let is_short_straddle = (p0 = p1);
                     is_short_strangle = (p0 \<noteq> p1);
                     leg1_type = (if contains ''C'' (leg_symbol l0) then CHR ''C'' else CHR ''P'');
                     leg2_type = (if contains ''C'' (leg_symbol l1) then CHR ''C'' else CHR ''P'')
                 in
                 if leg1_type = CHR ''C'' \<and> leg2_type = CHR ''C'' then
                   (case (py_index (split leg1_type (leg_symbol l0)) 1,
                          py_index (split leg2_type (leg_symbol l1)) 1) of
                      (Inr e0, Inr e1) \<Rightarrow>
                        (let leg1_exp = take 6 e0; leg2_exp = take 6 e1 in
                         if leg1_exp \<noteq> leg2_exp then Inr (is_short_straddle, False, True)
                         else Inr (is_short_straddle, is_short_strangle, False))
                    | (Inl e, _) \<Rightarrow> Inl e
                    | (_, Inl e) \<Rightarrow> Inl e)
                 else Inr (is_short_straddle, is_short_strangle, False))
            | (Inl e, _) \<Rightarrow> Inl e
            | (_, Inl e) \<Rightarrow> Inl e)
         else Inr (False, False, False))
      else Inr (False, False, False))"

definition get_short_straddle_error_message :: string where
  "get_short_straddle_error_message =
     ''\<newline>'' @
     ''    Error: Account not eligible to trade short straddles.\<newline>'' @
     ''\<newline>'' @
     ''    This error occurs because short straddles require Level 4 options trading permission.\<newline>'' @
     ''    A short straddle involves:\<newline>'' @
     ''    - Selling a call option\<newline>'' @
     ''    - Selling a put option\<newline>'' @
     ''    - Both options have the same strike price and expiration\<newline>'' @
     ''\<newline>'' @
     ''    Required Account Level:\<newline>'' @
     ''    - Level 4 options trading permission is required\<newline>'' @
     ''    - Please contact your broker to upgrade your account level if needed\<newline>'' @
     ''\<newline>'' @
     ''    Alternative Strategies:\<newline>'' @
     ''    - Consider using a long straddle instead\<newline>'' @
     ''    - Use a debit spread strategy\<newline>'' @
     ''    - Implement a covered call or cash-secured put\<newline>'' @
     ''    ''"

definition get_short_strangle_error_message :: string where
  "get_short_strangle_error_message =
     ''\<newline>'' @
     ''    Error: Account not eligible to trade short strangles.\<newline>'' @
     ''\<newline>'' @
     ''    This error occurs because short strangles require Level 4 options trading permission.\<newline>'' @
     ''    A short strangle involves:\<newline>'' @
     ''    - Selling an out-of-the-money call option\<newline>'' @
     ''    - Selling an out-of-the-money put option\<newline>'' @
     ''    - Both options have the same expiration\<newline>'' @
     ''\<newline>'' @
     ''    Required Account Level:\<newline>'' @
     ''    - Level 4 options trading permission is required\<newline>'' @
     ''    - Please contact your broker to upgrade your account level if needed\<newline>'' @
     ''\<newline>'' @
     ''    Alternative Strategies:\<newline>'' @
     ''    - Consider using a long strangle instead\<newline>'' @
     ''    - Use a debit spread strategy\<newline>'' @
     ''    - Implement a covered call or cash-secured put\<newline>'' @
     ''    ''"

definition get_short_calendar_error_message :: string where
  "get_short_calendar_error_message =
     ''\<newline>'' @
     ''    Error: Account not eligible to trade short calendar spreads.\<newline>'' @
     ''\<newline>'' @
     ''    This error occurs because short calendar spreads require Level 4 options trading permission.\<newline>'' @
     ''    A short calendar spread involves:\<newline>'' @
     ''    - Selling a longer-term option\<newline>'' @
     ''    - Selling a shorter-term option\<newline>'' @
     ''    - Both options have the same strike price\<newline>'' @
     ''\<newline>'' @
     ''    Required Account Level:\<newline>'' @
     ''    - Level 4 options trading permission is required\<newline>'' @
     ''    - Please contact your broker to upgrade your account level if needed\<newline>'' @
     ''\<newline>'' @
     ''    Alternative Strategies:\<newline>'' @
     ''    - Consider using a long calendar spread instead\<newline>'' @
     ''    - Use a debit spread strategy\<newline>'' @
     ''    - Implement a covered call or cash-secured put\<newline>'' @
     ''    ''"

definition get_uncovered_options_error_message :: string where
  "get_uncovered_options_error_message =
     ''\<newline>'' @
     ''    Error: Account not eligible to trade uncovered option contracts.\<newline>'' @
     ''\<newline>'' @
     ''    This error occurs when attempting to place an order that could result in an uncovered position.\<newline>'' @
     ''    Common scenarios include:\<newline>'' @
     ''    1. Selling naked calls\<newline>'' @
     ''    2. Calendar spreads where the short leg expires after the long leg\<newline>'' @
     ''    3. Other strategies that could leave uncovered positions\<newline>'' @
     ''\<newline>'' @
     ''    Required Account Level:\<newline>'' @
     ''    - Level 4 options trading permission is required for uncovered options\<newline>'' @
     ''    - Please contact your broker to upgrade your account level if needed\<newline>'' @
     ''\<newline>'' @
     ''    Alternative Strategies:\<newline>'' @
     ''    - Consider using covered calls instead of naked calls\<newline>'' @
     ''    - Use debit spreads instead of calendar spreads\<newline>'' @
     ''    - Ensure all positions are properly hedged\<newline>'' @
     ''    ''"

text \<open>The two templates of \<open>_handle_option_api_error\<close> that quote the error text.\<close>

definition permission_denied_message :: "string \<Rightarrow> string" where
  "permission_denied_message error_message =
     ''\<newline>'' @
     ''        Error: Permission denied for option trading.\<newline>'' @
     ''\<newline>'' @
     ''        Possible reasons:\<newline>'' @
     ''        1. Insufficient account level for the requested strategy\<newline>'' @
     ''        2. Account restrictions on option trading\<newline>'' @
     ''        3. Missing required permissions\<newline>'' @
     ''\<newline>'' @
     ''        Please check:\<newline>'' @
     ''        1. Your account's option trading level\<newline>'' @
     ''        2. Any specific restrictions on your account\<newline>'' @
     ''        3. Required permissions for the strategy you're trying to implement\<newline>'' @
     ''\<newline>'' @
     ''        Original error: '' @ error_message @ ''\<newline>'' @
     ''        ''"

definition order_failure_message :: "string \<Rightarrow> string" where
  "order_failure_message error_message =
     ''\<newline>'' @
     ''        Error placing option order: '' @ error_message @ ''\<newline>'' @
     ''\<newline>'' @
     ''        Please check:\<newline>'' @
     ''        1. All option symbols are valid\<newline>'' @
     ''        2. Your account has sufficient buying power\<newline>'' @
     ''        3. The market is open for trading\<newline>'' @
     ''        4. Your account has the required permissions\<newline>'' @
     ''        ''"

definition handle_option_api_error :: "string \<Rightarrow> OptionLegRequest list \<Rightarrow> OrderClass \<Rightarrow> exn + string" where
  "handle_option_api_error error_message order_legs order_cls =
     (if contains ''40310000'' error_message \<and>
         contains ''not eligible to trade uncovered option contracts'' error_message
      then
        (case analyze_option_strategy_type order_legs order_cls of
           Inl e \<Rightarrow> Inl e
         | Inr (is_short_straddle, is_short_strangle, is_short_calendar) \<Rightarrow>
            if is_short_straddle then Inr get_short_straddle_error_message
            else if is_short_strangle then Inr get_short_strangle_error_message
            else if is_short_calendar then Inr get_short_calendar_error_message
            else Inr get_uncovered_options_error_message)
      else if contains ''403'' error_message then Inr (permission_denied_message error_message)
      else Inr (order_failure_message error_message))"

text \<open>The template of the last \<open>except\<close> clause of \<open>place_option_market_order\<close>.\<close>

definition unexpected_error_message :: "string \<Rightarrow> string" where
  "unexpected_error_message text =
     ''\<newline>'' @
     ''        Unexpected error placing option order: '' @ text @ ''\<newline>'' @
     ''\<newline>'' @
     ''        Please try:\<newline>'' @
     ''        1. Verifying all input parameters\<newline>'' @
     ''        2. Checking your account status\<newline>'' @
     ''        3. Ensuring market is open\<newline>'' @
     ''        4. Contacting support if the issue persists\<newline>'' @
     ''        ''"

text \<open>
  \<open>place_option_market_order\<close>: what the call returns (\<open>Inl\<close> when an exception leaves
  the function) and the requests passed to \<open>submit_order\<close>. An \<open>APIError\<close> raised in
  the \<open>try\<close> block goes to \<open>_handle_option_api_error\<close>, whose own exceptions nothing
  catches; any other exception gives the unexpected-error template.
\<close>

definition place_option_market_order ::
  "'o client \<Rightarrow> int \<Rightarrow> leg list \<Rightarrow> order_class_arg \<Rightarrow> int \<Rightarrow> TimeInForce \<Rightarrow> bool \<Rightarrow>
   (exn + 'o reply) \<times> OrderRequest list" where
  "place_option_market_order trade_client now legs order_cls quantity time_in_force extended_hours =
     (case validate_option_order_inputs legs quantity time_in_force of
        Some validation_error \<Rightarrow> (Inr (Message validation_error), [])
      | None \<Rightarrow>
         (case convert_order_class_string order_cls of
            Inl msg \<Rightarrow> (Inr (Message msg), [])
          | Inr converted \<Rightarrow>
             (let order_cls' =
                    (case converted of
                       Some c \<Rightarrow> c
                     | None \<Rightarrow> if length legs > 1 then MLEG else SIMPLE)
              in
              case process_option_legs legs of
                Inl msg \<Rightarrow> (Inr (Message msg), [])
              | Inr order_legs \<Rightarrow>
                 (case create_option_market_order_request now order_legs order_cls'
                         quantity time_in_force extended_hours of
                    Inl e \<Rightarrow> (Inr (Message (unexpected_error_message (exn_str e))), [])
                  | Inr order_data \<Rightarrow>
                     (case trade_client order_data of
                        Inr order \<Rightarrow> (Inr (OrderDetails order), [order_data])
                      | Inl (APIError m) \<Rightarrow>
                         (case handle_option_api_error m order_legs order_cls' of
                            Inl e \<Rightarrow> (Inl e, [order_data])
                          | Inr msg \<Rightarrow> (Inr (Message msg), [order_data]))
                      | Inl e \<Rightarrow>
                         (Inr (Message (unexpected_error_message (exn_str e))), [order_data]))))))"

section \<open>Vocabulary of the specification\<close>

text \<open>
  The words the claims use, each defined on the arguments alone (none of them calls a
  tool): a valid side, time in force, order type and order class string, a missing
  companion price field, a valid leg, the leg request a valid leg stands for, and the
  price fields a message names.
\<close>

definition valid_side :: "string \<Rightarrow> bool" where
  "valid_side s \<longleftrightarrow> lower s = ''buy'' \<or> lower s = ''sell''"

definition side_of :: "string \<Rightarrow> OrderSide" where
  "side_of s = (if lower s = ''buy'' then BUY else SELL)"

definition valid_time_in_force :: "tif_arg \<Rightarrow> bool" where
  "valid_time_in_force t \<longleftrightarrow>
     (case t of
        TifEnum _ \<Rightarrow> True
      | TifStr s \<Rightarrow> upper s \<in> set [''DAY'', ''GTC'', ''OPG'', ''CLS'', ''IOC'', ''FOK'']
      | TifOther _ \<Rightarrow> False)"

definition valid_order_type :: "string \<Rightarrow> bool" where
  "valid_order_type t \<longleftrightarrow>
     upper t \<in> set [''MARKET'', ''LIMIT'', ''STOP'', ''STOP_LIMIT'', ''TRAILING_STOP'']"

definition missing_price_field ::
  "string \<Rightarrow> real option \<Rightarrow> real option \<Rightarrow> real option \<Rightarrow> real option \<Rightarrow> bool" where
  "missing_price_field order_type limit_price stop_price trail_price trail_percent \<longleftrightarrow>
     (upper order_type = ''LIMIT'' \<and> limit_price = None) \<or>
     (upper order_type = ''STOP'' \<and> stop_price = None) \<or>
     (upper order_type = ''STOP_LIMIT'' \<and> (stop_price = None \<or> limit_price = None)) \<or>
     (upper order_type = ''TRAILING_STOP'' \<and> trail_price = None \<and> trail_percent = None)"

definition valid_order_class :: "order_class_arg \<Rightarrow> bool" where
  "valid_order_class c \<longleftrightarrow>
     (case c of
        ClassStr s \<Rightarrow> upper s \<in> set [''SIMPLE'', ''BRACKET'', ''OCO'', ''OTO'', ''MLEG'']
      | _ \<Rightarrow> True)"

definition valid_leg :: "leg \<Rightarrow> bool" where
  "valid_leg l \<longleftrightarrow>
     (case int_value (ratio_qty l) of None \<Rightarrow> False | Some n \<Rightarrow> 0 < n) \<and> valid_side (side l)"

definition leg_request :: "leg \<Rightarrow> OptionLegRequest" where
  "leg_request l = \<lparr>leg_symbol = symbol l, leg_side = side_of (side l), leg_ratio_qty = ratio_qty l\<rparr>"

definition named_price_fields :: "string \<Rightarrow> string list" where
  "named_price_fields msg =
     filter (\<lambda>f. contains f msg) [''limit_price'', ''stop_price'', ''trail_price'', ''trail_percent'']"

text \<open>The beginnings by which a failure message is recognised, after any leading
  white space (the templates of the option tool start with a line break and an
  indentation).\<close>

definition failure_prefixes :: "string list" where
  "failure_prefixes =
     [''Error: '', ''Error placing order: '', ''Error placing option order: '',
      ''Unexpected error placing option order: '',
      ''Invalid order side: '', ''Invalid time_in_force: '', ''Invalid time_in_force type: '',
      ''Invalid order type: '', ''Invalid order class: '',
      ''limit_price is required'', ''stop_price is required'',
      ''Both stop_price and limit_price are required'',
      ''Either trail_price or trail_percent is required'']"

definition recognisable :: "string \<Rightarrow> bool" where
  "recognisable msg \<longleftrightarrow> list_ex (\<lambda>p. startswith p (dropWhile is_space msg)) failure_prefixes"

section \<open>Properties\<close>

subsection \<open>Strings\<close>

lemma startswith_append: "startswith p (p @ s)"
  by (induction p) auto

lemma contains_self_prefix: "contains sub (sub @ q)"
  by (cases "sub @ q") (auto simp: startswith_append dest: sym)

lemma contains_append_left: "contains sub s \<Longrightarrow> contains sub (p @ s)"
  by (induction p) simp_all

lemma contains_middle: "contains sub (p @ sub @ q)"
  by (rule contains_append_left) (rule contains_self_prefix)

lemma contains_single: "contains [c] s \<longleftrightarrow> c \<in> set s"
  by (induction s) auto

lemma split_length: "length (split c s) = Suc (count_list s c)"
  by (induction s) (auto split: list.splits)

lemma split_index0: "\<exists>p. py_index (split c s) 0 = Inr p"
  by (simp add: py_index_def split_length)

lemma split_index1: "c \<in> set s \<Longrightarrow> \<exists>p. py_index (split c s) 1 = Inr p"
  by (simp add: py_index_def split_length count_list_0_iff)

lemma digits_lower_char: "\<forall>c\<in>set ''0123456789''. lower_char c = c"
  by (simp add: lower_char_def)

lemma is_digit_lower_char: "is_digit c \<Longrightarrow> lower_char c = c"
  using digits_lower_char unfolding is_digit_def by blast

lemma lower_char_newline: "lower_char (CHR 0x0A) = CHR 0x0A"
  by (simp add: lower_char_def)

lemma strip_last: "strip s \<noteq> [] \<Longrightarrow> \<not> is_space (last (strip s))"
proof -
  assume a: "strip s \<noteq> []"
  let ?r = "dropWhile is_space (rev (dropWhile is_space s))"
  from a have ne: "?r \<noteq> []" by (simp add: strip_def)
  then have "\<not> is_space (hd ?r)" by (rule hd_dropWhile)
  moreover have "last (strip s) = hd ?r" using ne by (simp add: strip_def last_rev)
  ultimately show ?thesis by simp
qed

subsection \<open>Timeframe parser\<close>

lemma unit_mapping_dom: "unit_mapping x = Some u \<Longrightarrow> x \<in> set unit_words"
  by (auto simp: unit_mapping_def unit_words_def split: if_splits)

lemma unit_words_first: "x \<in> set unit_words \<Longrightarrow> x \<noteq> [] \<and> \<not> is_digit (hd x) \<and> last x \<noteq> CHR 0x0A"
  by (auto simp: unit_words_def is_digit_def)

text \<open>A unit word in any case starts with a letter and does not end a line.\<close>

lemma unit_word_shape:
  assumes "lower w \<in> set unit_words"
  shows "w \<noteq> [] \<and> \<not> is_digit (hd w) \<and> last w \<noteq> CHR 0x0A"
proof -
  from unit_words_first [OF assms]
  have ne: "lower w \<noteq> []" and d: "\<not> is_digit (hd (lower w))" and l: "last (lower w) \<noteq> CHR 0x0A"
    by simp_all
  from ne have w: "w \<noteq> []" by (auto simp: lower_def)
  have "\<not> is_digit (hd w)"
  proof
    assume h: "is_digit (hd w)"
    with w have "hd (lower w) = hd w" by (simp add: lower_def hd_map is_digit_lower_char)
    with d h show False by simp
  qed
  moreover have "last w \<noteq> CHR 0x0A"
  proof
    assume h: "last w = CHR 0x0A"
    with w have "last (lower w) = CHR 0x0A" by (simp add: lower_def last_map lower_char_newline)
    with l show False by simp
  qed
  ultimately show ?thesis using w by simp
qed

text \<open>The regular expression matches digits followed by a unit word, with these groups.\<close>

lemma re_match_form:
  assumes "ds \<noteq> []" "list_all is_digit ds" "lower w \<in> set unit_words"
  shows "re_match_timeframe (ds @ w) = Some (ds, w)"
proof -
  from unit_word_shape [OF assms(3)] have w: "w \<noteq> []" "\<not> is_digit (hd w)" "last w \<noteq> CHR 0x0A"
    by simp_all
  from w obtain x xs where wx: "w = x # xs" "\<not> is_digit x" by (cases w) auto
  from assms(2) have all: "\<forall>c\<in>set ds. is_digit c" by (simp add: list_all_iff)
  have t: "takeWhile is_digit (ds @ w) = ds" using all wx by (simp add: takeWhile_append2)
  have d: "dropWhile is_digit (ds @ w) = w" using all wx by (simp add: dropWhile_append2)
  show ?thesis
    using assms(1,3) w unfolding re_match_timeframe_def t d unit_words_def by (simp add: Let_def)
qed

text \<open>On a trimmed string it matches nothing else: the text cannot end with a line
  feed.\<close>

lemma re_match_sound:
  assumes "re_match_timeframe (strip s) = Some (g1, g2)"
  shows "strip s = g1 @ g2 \<and> g1 \<noteq> [] \<and> list_all is_digit g1 \<and> lower g2 \<in> set unit_words"
proof -
  let ?t = "strip s"
  let ?rest = "dropWhile is_digit ?t"
  from assms have g1: "g1 = takeWhile is_digit ?t" and ne: "g1 \<noteq> []"
    by (auto simp: re_match_timeframe_def Let_def split: if_splits)
  have nonl: "\<not> (?rest \<noteq> [] \<and> last ?rest = CHR 0x0A)"
  proof
    assume h: "?rest \<noteq> [] \<and> last ?rest = CHR 0x0A"
    have "?t = takeWhile is_digit ?t @ ?rest" by simp
    with h have "last ?t = CHR 0x0A" by (metis last_appendR)
    moreover from h have "?t \<noteq> []" by auto
    ultimately show False using strip_last [of s] by (simp add: is_space_def)
  qed
  with assms have g2: "g2 = ?rest" and lw: "lower g2 \<in> set unit_words"
    by (auto simp: re_match_timeframe_def Let_def unit_words_def split: if_splits)
  have "list_all is_digit g1" unfolding g1 list_all_iff by (auto dest: set_takeWhileD)
  with g1 g2 ne lw show ?thesis by simp
qed

lemma shortcuts_agree:
  assumes "predefined_timeframes t = Some tf"
  shows "parse_after_shortcuts t = Some tf"
proof -
  from assms consider
      "t = ''1Min''" "tf = \<lparr>amount = 1, unit = Minute\<rparr>"
    | "t = ''1Hour''" "tf = \<lparr>amount = 1, unit = Hour\<rparr>"
    | "t = ''1Day''" "tf = \<lparr>amount = 1, unit = Day\<rparr>"
    | "t = ''1Week''" "tf = \<lparr>amount = 1, unit = Week\<rparr>"
    | "t = ''1Month''" "tf = \<lparr>amount = 1, unit = Month\<rparr>"
    unfolding predefined_timeframes_def by (auto split: if_splits)
  then show ?thesis
    by cases
      (simp_all add: parse_after_shortcuts_def re_match_timeframe_def is_digit_def lower_def
        lower_char_def unit_mapping_def int_of_digits_def unit_ceiling_def)
qed

lemma parse_timeframe_unfold:
  "parse_timeframe_with_enums s = parse_after_shortcuts (strip s)"
proof (cases "predefined_timeframes (strip s)")
  case None
  then show ?thesis
    by (auto simp: parse_timeframe_with_enums_def parse_after_shortcuts_def Let_def unit_ceiling_def
        split: option.splits TimeFrameUnit.splits)
next
  case (Some tf)
  then show ?thesis
    by (simp add: parse_timeframe_with_enums_def shortcuts_agree)
qed

lemma no_digit_start:
  assumes "\<not> is_digit c"
  shows "\<not> (\<exists>ds w. c # cs = ds @ w \<and> ds \<noteq> [] \<and> list_all is_digit ds \<and> lower w \<in> set unit_words)"
proof
  assume "\<exists>ds w. c # cs = ds @ w \<and> ds \<noteq> [] \<and> list_all is_digit ds \<and> lower w \<in> set unit_words"
  then obtain ds w where e: "c # cs = ds @ w" and ne: "ds \<noteq> []" and d: "list_all is_digit ds"
    by blast
  from ne obtain x xs where ds: "ds = x # xs" by (cases ds) auto
  with e have "x = c" by simp
  with d ds have "is_digit c" by simp
  with assms show False by simp
qed

text \<open>
  C4, as amended. The parser trims white space first. For every string whose trimmed
  text is a run of digits with a positive value followed by one of the unit words Min,
  Hour, Day, Week, Month in any case, parsing yields that amount and unit when the
  amount is at most the ceiling of the unit (59 for minutes, 23 for hours, 365 for
  days, weeks and months) and fails, with the value \<open>None\<close>, when it is above; and
  parsing fails for every string whose trimmed text is not a run of digits followed by
  a unit word.
\<close>

theorem parse_timeframe_trimmed:
  "(\<forall>ds w u. strip s = ds @ w \<and> ds \<noteq> [] \<and> list_all is_digit ds \<and> 0 < int_of_digits ds \<and>
        unit_mapping (lower w) = Some u \<longrightarrow>
      parse_timeframe_with_enums s =
        (if int_of_digits ds \<le> unit_ceiling u then Some \<lparr>amount = int_of_digits ds, unit = u\<rparr>
         else None)) \<and>
   ((\<nexists>ds w. strip s = ds @ w \<and> ds \<noteq> [] \<and> list_all is_digit ds \<and> lower w \<in> set unit_words) \<longrightarrow>
      parse_timeframe_with_enums s = None)"
proof (intro conjI allI impI)
  fix ds w u
  assume a: "strip s = ds @ w \<and> ds \<noteq> [] \<and> list_all is_digit ds \<and> 0 < int_of_digits ds \<and>
        unit_mapping (lower w) = Some u"
  then have "lower w \<in> set unit_words" by (simp add: unit_mapping_dom)
  with a have "re_match_timeframe (strip s) = Some (ds, w)" by (simp add: re_match_form)
  with a show "parse_timeframe_with_enums s =
        (if int_of_digits ds \<le> unit_ceiling u then Some \<lparr>amount = int_of_digits ds, unit = u\<rparr>
         else None)"
    by (simp add: parse_timeframe_unfold parse_after_shortcuts_def)
next
  assume n: "\<nexists>ds w. strip s = ds @ w \<and> ds \<noteq> [] \<and> list_all is_digit ds \<and> lower w \<in> set unit_words"
  have "re_match_timeframe (strip s) = None"
  proof (cases "re_match_timeframe (strip s)")
    case None then show ?thesis .
  next
    case (Some p)
    obtain g1 g2 where "p = (g1, g2)" by (cases p)
    with Some re_match_sound [of s g1 g2] n show ?thesis by blast
  qed
  then show "parse_timeframe_with_enums s = None"
    by (simp add: parse_timeframe_unfold parse_after_shortcuts_def)
qed

theorem parse_timeframe_trimmed_witness:
  "parse_timeframe_with_enums ''12Hour'' = Some \<lparr>amount = 12, unit = Hour\<rparr> \<and>
   parse_timeframe_with_enums ''400day'' = None \<and>
   parse_timeframe_with_enums ''Min5'' = None"
proof -
  have s1: "strip ''12Hour'' = ''12'' @ ''Hour''" and s2: "strip ''400day'' = ''400'' @ ''day''"
    and s3: "strip ''Min5'' = ''Min5''"
    by (simp_all add: strip_def is_space_def)
  have d: "list_all is_digit ''12''" "list_all is_digit ''400''" by (simp_all add: is_digit_def)
  have i: "int_of_digits ''12'' = 12" "int_of_digits ''400'' = 400" by (simp_all add: int_of_digits_def)
  have u: "unit_mapping (lower ''Hour'') = Some Hour" "unit_mapping (lower ''day'') = Some Day"
    by (simp_all add: unit_mapping_def lower_def lower_char_def)
  have n: "\<nexists>ds w. strip ''Min5'' = ds @ w \<and> ds \<noteq> [] \<and> list_all is_digit ds \<and> lower w \<in> set unit_words"
    unfolding s3 by (rule no_digit_start) (simp add: is_digit_def)
  note t1 = parse_timeframe_trimmed [of "''12Hour''", THEN conjunct1, rule_format, of "''12''" "''Hour''" Hour]
  note t2 = parse_timeframe_trimmed [of "''400day''", THEN conjunct1, rule_format, of "''400''" "''day''" Day]
  note t3 = parse_timeframe_trimmed [of "''Min5''", THEN conjunct2, rule_format, OF n]
  have "parse_timeframe_with_enums ''12Hour'' = Some \<lparr>amount = 12, unit = Hour\<rparr>"
    using t1 s1 d(1) i(1) u(1) by (simp add: unit_ceiling_def)
  moreover have "parse_timeframe_with_enums ''400day'' = None"
    using t2 s2 d(2) i(2) u(2) by (simp add: unit_ceiling_def)
  ultimately show ?thesis using t3 by simp
qed

text \<open>The claim as stated fails on a padded string: \<open>" 5Min"\<close> is not digits followed by
  a unit word (it has another character), and it parses.\<close>

theorem parse_timeframe_padded_counterexample:
  "\<not> (\<exists>ds w. '' 5Min'' = ds @ w \<and> ds \<noteq> [] \<and> list_all is_digit ds \<and> lower w \<in> set unit_words) \<and>
   parse_timeframe_with_enums '' 5Min'' = Some \<lparr>amount = 5, unit = Minute\<rparr>"
proof -
  have "\<not> (\<exists>ds w. '' 5Min'' = ds @ w \<and> ds \<noteq> [] \<and> list_all is_digit ds \<and> lower w \<in> set unit_words)"
    by (rule no_digit_start) (simp add: is_digit_def)
  moreover have "parse_timeframe_with_enums '' 5Min'' = Some \<lparr>amount = 5, unit = Minute\<rparr>"
    by (simp add: parse_timeframe_with_enums_def strip_def is_space_def predefined_timeframes_def
        re_match_timeframe_def is_digit_def lower_def lower_char_def unit_mapping_def int_of_digits_def)
  ultimately show ?thesis by simp
qed

subsection \<open>Strategy classifier and error mapper\<close>

text \<open>The classifier never raises: the one index that could be out of range,
  \<open>split(leg_type)[1]\<close>, is taken only of a symbol that contains the separator.\<close>

lemma analyze_returns: "\<exists>a b c. analyze_option_strategy_type order_legs order_cls = Inr (a, b, c)"
proof (cases "order_cls = MLEG \<and> length order_legs = 2 \<and>
              leg_side (order_legs ! 0) = SELL \<and> leg_side (order_legs ! 1) = SELL")
  case False
  then show ?thesis by (auto simp: analyze_option_strategy_type_def Let_def)
next
  case True
  let ?s0 = "leg_symbol (order_legs ! 0)" and ?s1 = "leg_symbol (order_legs ! 1)"
  obtain p0 p1 where p: "py_index (split CHR ''C'' ?s0) 0 = Inr p0" "py_index (split CHR ''P'' ?s1) 0 = Inr p1"
    using split_index0 by blast
  show ?thesis
  proof (cases "contains ''C'' ?s0 \<and> contains ''C'' ?s1")
    case False
    with True p show ?thesis by (auto simp: analyze_option_strategy_type_def Let_def)
  next
    case cc: True
    then have m0: "CHR ''C'' \<in> set ?s0" and m1: "CHR ''C'' \<in> set ?s1"
      by (simp_all add: contains_single)
    from split_index1 [OF m0] obtain e0 where e0: "py_index (split CHR ''C'' ?s0) 1 = Inr e0" by blast
    from split_index1 [OF m1] obtain e1 where e1: "py_index (split CHR ''C'' ?s1) 1 = Inr e1" by blast
    note e = e0 e1
    with True p cc show ?thesis by (auto simp: analyze_option_strategy_type_def Let_def)
  qed
qed

lemma explanations_distinct:
  "distinct [get_short_straddle_error_message, get_short_strangle_error_message,
             get_short_calendar_error_message, get_uncovered_options_error_message]"
  by (simp add: get_short_straddle_error_message_def get_short_strangle_error_message_def
      get_short_calendar_error_message_def get_uncovered_options_error_message_def)

text \<open>
  C1. For every error text, leg list and order class the mapper returns a string. When
  the text contains \<open>40310000\<close> and \<open>not eligible to trade uncovered option
  contracts\<close>, it is the explanation of the first flag the classifier sets, in the
  order short straddle, short strangle, short calendar, and the generic
  uncovered-options explanation when no flag is set; the four explanations differ
  from each other. Otherwise, when the text contains \<open>403\<close>, it is the
  permission-denied explanation; otherwise the order-placement-failure explanation,
  which contains the error text verbatim.
\<close>

theorem handle_option_api_error_cases:
  "\<exists>a b c. analyze_option_strategy_type order_legs order_cls = Inr (a, b, c) \<and>
     handle_option_api_error error_message order_legs order_cls =
       Inr (if contains ''40310000'' error_message \<and>
               contains ''not eligible to trade uncovered option contracts'' error_message
            then (if a then get_short_straddle_error_message
                  else if b then get_short_strangle_error_message
                  else if c then get_short_calendar_error_message
                  else get_uncovered_options_error_message)
            else if contains ''403'' error_message then permission_denied_message error_message
            else order_failure_message error_message) \<and>
     contains error_message (order_failure_message error_message) \<and>
     distinct [get_short_straddle_error_message, get_short_strangle_error_message,
               get_short_calendar_error_message, get_uncovered_options_error_message]"
proof -
  obtain a b c where abc: "analyze_option_strategy_type order_legs order_cls = Inr (a, b, c)"
    using analyze_returns by blast
  have "contains error_message (order_failure_message error_message)"
    unfolding order_failure_message_def
    by (rule contains_append_left, rule contains_append_left, rule contains_self_prefix)
  with abc explanations_distinct show ?thesis
    by (auto simp: handle_option_api_error_def)
qed

theorem handle_option_api_error_witness:
  "handle_option_api_error
     ''code 40310000: account not eligible to trade uncovered option contracts''
     [\<lparr>leg_symbol = ''XYZ230616C00150000'', leg_side = SELL, leg_ratio_qty = PyInt 1\<rparr>,
      \<lparr>leg_symbol = ''XYZ230616P00150000'', leg_side = SELL, leg_ratio_qty = PyInt 1\<rparr>] MLEG
     = Inr get_short_straddle_error_message \<and>
   handle_option_api_error ''HTTP 403 Forbidden'' [] SIMPLE
     = Inr (permission_denied_message ''HTTP 403 Forbidden'') \<and>
   handle_option_api_error ''insufficient buying power'' [] SIMPLE
     = Inr (order_failure_message ''insufficient buying power'')"
proof -
  let ?legs = "[\<lparr>leg_symbol = ''XYZ230616C00150000'', leg_side = SELL, leg_ratio_qty = PyInt 1\<rparr>,
      \<lparr>leg_symbol = ''XYZ230616P00150000'', leg_side = SELL, leg_ratio_qty = PyInt 1\<rparr>]"
  have f: "analyze_option_strategy_type ?legs MLEG = Inr (True, False, False)"
    by (simp add: analyze_option_strategy_type_def py_index_def)
  have c1: "contains ''40310000'' ''code 40310000: account not eligible to trade uncovered option contracts''"
    and c2: "contains ''not eligible to trade uncovered option contracts''
        ''code 40310000: account not eligible to trade uncovered option contracts''"
    and c3: "\<not> contains ''40310000'' ''HTTP 403 Forbidden''"
    and c4: "contains ''403'' ''HTTP 403 Forbidden''"
    and c5: "\<not> contains ''40310000'' ''insufficient buying power''"
    and c6: "\<not> contains ''403'' ''insufficient buying power''"
    by simp_all
  from handle_option_api_error_cases
    [of "?legs" MLEG "''code 40310000: account not eligible to trade uncovered option contracts''"]
    f c1 c2
  have "handle_option_api_error
     ''code 40310000: account not eligible to trade uncovered option contracts'' ?legs MLEG
     = Inr get_short_straddle_error_message" by auto
  moreover from handle_option_api_error_cases [of "[]" SIMPLE "''HTTP 403 Forbidden''"] c3 c4
  have "handle_option_api_error ''HTTP 403 Forbidden'' [] SIMPLE
     = Inr (permission_denied_message ''HTTP 403 Forbidden'')" by auto
  moreover from handle_option_api_error_cases [of "[]" SIMPLE "''insufficient buying power''"] c5 c6
  have "handle_option_api_error ''insufficient buying power'' [] SIMPLE
     = Inr (order_failure_message ''insufficient buying power'')" by auto
  ultimately show ?thesis by simp
qed

text \<open>
  C2. Two SELL legs under MLEG on the same underlying, expiration and strike, one put
  and one call, with the put listed first: the classifier compares the first leg's
  text before its first \<open>C\<close> with the second leg's text before its first \<open>P\<close>,
  which are the two whole symbols, and sets the strangle flag, not the straddle flag.
\<close>

theorem analyze_put_first_straddle:
  "analyze_option_strategy_type
     [\<lparr>leg_symbol = ''XYZ230616P00150000'', leg_side = SELL, leg_ratio_qty = PyInt 1\<rparr>,
      \<lparr>leg_symbol = ''XYZ230616C00150000'', leg_side = SELL, leg_ratio_qty = PyInt 1\<rparr>] MLEG
   = Inr (False, True, False)"
  by (simp add: analyze_option_strategy_type_def py_index_def)


text \<open>With the call listed first the same two legs are a short straddle; on the symbol
  of the tool's docstring (underlying AAPL, which contains a \<open>P\<close>) they are not; a SELL
  pair of calls on one strike and two expirations is not a calendar for the classifier,
  since the six characters after the \<open>C\<close> are the strike.\<close>

lemma analyze_call_first_straddle:
  "analyze_option_strategy_type
     [\<lparr>leg_symbol = ''XYZ230616C00150000'', leg_side = SELL, leg_ratio_qty = PyInt 1\<rparr>,
      \<lparr>leg_symbol = ''XYZ230616P00150000'', leg_side = SELL, leg_ratio_qty = PyInt 1\<rparr>] MLEG
   = Inr (True, False, False)"
  by (simp add: analyze_option_strategy_type_def py_index_def)

lemma analyze_docstring_symbol:
  "analyze_option_strategy_type
     [\<lparr>leg_symbol = ''AAPL230616C00150000'', leg_side = SELL, leg_ratio_qty = PyInt 1\<rparr>,
      \<lparr>leg_symbol = ''AAPL230616P00150000'', leg_side = SELL, leg_ratio_qty = PyInt 1\<rparr>] MLEG
   = Inr (False, True, False)"
  by (simp add: analyze_option_strategy_type_def py_index_def)

lemma analyze_two_expirations:
  "analyze_option_strategy_type
     [\<lparr>leg_symbol = ''XYZ230616C00150000'', leg_side = SELL, leg_ratio_qty = PyInt 1\<rparr>,
      \<lparr>leg_symbol = ''XYZ230716C00150000'', leg_side = SELL, leg_ratio_qty = PyInt 1\<rparr>] MLEG
   = Inr (False, True, False)"
  by (simp add: analyze_option_strategy_type_def py_index_def)

text \<open>What the classifier computes on two SELL legs under MLEG: the straddle flag
  compares the first symbol before its first \<open>C\<close> with the second before its first
  \<open>P\<close>; the calendar flag is set when both symbols contain a \<open>C\<close> and the six
  characters after the first \<open>C\<close> differ; the strangle flag is set when neither is.\<close>

lemma analyze_two_short_legs:
  assumes "leg_side l0 = SELL" "leg_side l1 = SELL"
  shows "analyze_option_strategy_type [l0, l1] MLEG =
     (let straddle = (hd (split CHR ''C'' (leg_symbol l0)) = hd (split CHR ''P'' (leg_symbol l1)));
          calendar = (CHR ''C'' \<in> set (leg_symbol l0) \<and> CHR ''C'' \<in> set (leg_symbol l1) \<and>
                      take 6 (split CHR ''C'' (leg_symbol l0) ! 1) \<noteq>
                      take 6 (split CHR ''C'' (leg_symbol l1) ! 1))
      in Inr (straddle, \<not> straddle \<and> \<not> calendar, calendar))"
proof -
  have ne: "split c s \<noteq> []" for c s
    using split_length [of c s] by (cases "split c s") simp_all
  have i0: "py_index (split c s) 0 = Inr (hd (split c s))" for c s
    using ne [of c s] by (simp add: py_index_def hd_conv_nth)
  have i1: "c \<in> set s \<Longrightarrow> py_index (split c s) (Suc 0) = Inr (split c s ! Suc 0)" for c s
    by (simp add: py_index_def split_length count_list_0_iff)
  show ?thesis
  proof (cases "CHR ''C'' \<in> set (leg_symbol l0) \<and> CHR ''C'' \<in> set (leg_symbol l1)")
    case True
    with assms show ?thesis
      by (simp add: analyze_option_strategy_type_def i0 i1 contains_single Let_def)
  next
    case False
    with assms show ?thesis
      by (auto simp: analyze_option_strategy_type_def i0 contains_single Let_def)
  qed
qed

lemma analyze_not_applicable:
  "\<not> (order_cls = MLEG \<and> length order_legs = 2 \<and>
      leg_side (order_legs ! 0) = SELL \<and> leg_side (order_legs ! 1) = SELL) \<Longrightarrow>
   analyze_option_strategy_type order_legs order_cls = Inr (False, False, False)"
  by (auto simp: analyze_option_strategy_type_def Let_def)

subsection \<open>Stock order builder\<close>

text \<open>With a valid side and time in force the builder is the dispatch on the order
  type.\<close>

lemma build_stock_order_valid:
  assumes "valid_side sd" "valid_time_in_force time_in_force"
  shows "\<exists>tif_enum. build_stock_order now ticker sd quantity order_type time_in_force
             limit_price stop_price trail_price trail_percent extended_hours client_order_id =
           order_data_for_type now ticker (side_of sd) quantity order_type tif_enum
             limit_price stop_price trail_price trail_percent extended_hours client_order_id"
proof (cases time_in_force)
  case (TifEnum t)
  with assms(1) show ?thesis
    by (auto simp: build_stock_order_def valid_side_def side_of_def)
next
  case (TifStr s)
  with assms show ?thesis
    by (auto simp: build_stock_order_def valid_side_def side_of_def valid_time_in_force_def Let_def)
next
  case (TifOther ty)
  with assms(2) show ?thesis by (simp add: valid_time_in_force_def)
qed

lemma place_stock_order_built:
  "build_stock_order now ticker sd quantity order_type time_in_force
     limit_price stop_price trail_price trail_percent extended_hours client_order_id = Inr req \<Longrightarrow>
   snd (place_stock_order trade_client now ticker sd quantity order_type time_in_force
     limit_price stop_price trail_price trail_percent extended_hours client_order_id) = [req]"
  by (simp add: place_stock_order_def split: sum.splits)

lemma place_stock_order_rejected:
  "build_stock_order now ticker sd quantity order_type time_in_force
     limit_price stop_price trail_price trail_percent extended_hours client_order_id = Inl msg \<Longrightarrow>
   place_stock_order trade_client now ticker sd quantity order_type time_in_force
     limit_price stop_price trail_price trail_percent extended_hours client_order_id = (Message msg, [])"
  by (simp add: place_stock_order_def)

lemma order_data_limit:
  "upper order_type = ''LIMIT'' \<Longrightarrow>
   order_data_for_type now ticker order_side quantity order_type tif_enum
        limit_price stop_price trail_price trail_percent extended_hours client_order_id =
     (case limit_price of
        None \<Rightarrow> Inl ''limit_price is required for LIMIT orders.''
      | Some lp \<Rightarrow> Inr (LimitOrderRequest \<lparr>req_symbol = Some ticker, req_qty = quantity, req_side = Some order_side,
          req_type = LIMIT, req_time_in_force = tif_enum, req_extended_hours = extended_hours,
          req_client_order_id = client_order_id_or_default client_order_id now,
          req_order_class = None, req_legs = None\<rparr> lp))"
  by (simp add: order_data_for_type_def Let_def)

lemma order_data_stop:
  "upper order_type = ''STOP'' \<Longrightarrow>
   order_data_for_type now ticker order_side quantity order_type tif_enum
        limit_price stop_price trail_price trail_percent extended_hours client_order_id =
     (case stop_price of
        None \<Rightarrow> Inl ''stop_price is required for STOP orders.''
      | Some sp \<Rightarrow> Inr (StopOrderRequest \<lparr>req_symbol = Some ticker, req_qty = quantity, req_side = Some order_side,
          req_type = STOP, req_time_in_force = tif_enum, req_extended_hours = extended_hours,
          req_client_order_id = client_order_id_or_default client_order_id now,
          req_order_class = None, req_legs = None\<rparr> sp))"
  by (simp add: order_data_for_type_def Let_def)

lemma order_data_stop_limit:
  "upper order_type = ''STOP_LIMIT'' \<Longrightarrow>
   order_data_for_type now ticker order_side quantity order_type tif_enum
        limit_price stop_price trail_price trail_percent extended_hours client_order_id =
     (case (stop_price, limit_price) of
        (Some sp, Some lp) \<Rightarrow> Inr (StopLimitOrderRequest \<lparr>req_symbol = Some ticker, req_qty = quantity, req_side = Some order_side,
          req_type = STOP_LIMIT, req_time_in_force = tif_enum, req_extended_hours = extended_hours,
          req_client_order_id = client_order_id_or_default client_order_id now,
          req_order_class = None, req_legs = None\<rparr> sp lp)
      | _ \<Rightarrow> Inl ''Both stop_price and limit_price are required for STOP_LIMIT orders.'')"
  by (simp add: order_data_for_type_def Let_def)

lemma order_data_for_type_prices:
  "(upper order_type = ''LIMIT'' \<and> limit_price = None \<longrightarrow>
      order_data_for_type now ticker order_side quantity order_type tif_enum
        limit_price stop_price trail_price trail_percent extended_hours client_order_id = Inl ''limit_price is required for LIMIT orders.'') \<and>
    (upper order_type = ''STOP'' \<and> stop_price = None \<longrightarrow>
      order_data_for_type now ticker order_side quantity order_type tif_enum
        limit_price stop_price trail_price trail_percent extended_hours client_order_id = Inl ''stop_price is required for STOP orders.'') \<and>
    (upper order_type = ''STOP_LIMIT'' \<and> (stop_price = None \<or> limit_price = None) \<longrightarrow>
      order_data_for_type now ticker order_side quantity order_type tif_enum
        limit_price stop_price trail_price trail_percent extended_hours client_order_id = Inl ''Both stop_price and limit_price are required for STOP_LIMIT orders.'') \<and>
    (\<forall>lp. upper order_type = ''LIMIT'' \<and> limit_price = Some lp \<longrightarrow>
      (\<exists>f. order_data_for_type now ticker order_side quantity order_type tif_enum
        limit_price stop_price trail_price trail_percent extended_hours client_order_id = Inr (LimitOrderRequest f lp) \<and> req_type f = LIMIT)) \<and>
    (\<forall>sp. upper order_type = ''STOP'' \<and> stop_price = Some sp \<longrightarrow>
      (\<exists>f. order_data_for_type now ticker order_side quantity order_type tif_enum
        limit_price stop_price trail_price trail_percent extended_hours client_order_id = Inr (StopOrderRequest f sp) \<and> req_type f = STOP)) \<and>
    (\<forall>sp lp. upper order_type = ''STOP_LIMIT'' \<and> stop_price = Some sp \<and> limit_price = Some lp \<longrightarrow>
      (\<exists>f. order_data_for_type now ticker order_side quantity order_type tif_enum
        limit_price stop_price trail_price trail_percent extended_hours client_order_id = Inr (StopLimitOrderRequest f sp lp) \<and> req_type f = STOP_LIMIT))"
proof (intro conjI allI impI)
  show "order_data_for_type now ticker order_side quantity order_type tif_enum
        limit_price stop_price trail_price trail_percent extended_hours client_order_id = Inl ''limit_price is required for LIMIT orders.''"
    if "upper order_type = ''LIMIT'' \<and> limit_price = None"
    using that by (simp add: order_data_limit)
  show "order_data_for_type now ticker order_side quantity order_type tif_enum
        limit_price stop_price trail_price trail_percent extended_hours client_order_id = Inl ''stop_price is required for STOP orders.''"
    if "upper order_type = ''STOP'' \<and> stop_price = None"
    using that by (simp add: order_data_stop)
  show "order_data_for_type now ticker order_side quantity order_type tif_enum
        limit_price stop_price trail_price trail_percent extended_hours client_order_id = Inl ''Both stop_price and limit_price are required for STOP_LIMIT orders.''"
    if "upper order_type = ''STOP_LIMIT'' \<and> (stop_price = None \<or> limit_price = None)"
    using that by (auto simp: order_data_stop_limit split: option.splits)
  show "\<exists>f. order_data_for_type now ticker order_side quantity order_type tif_enum
        limit_price stop_price trail_price trail_percent extended_hours client_order_id = Inr (LimitOrderRequest f lp) \<and> req_type f = LIMIT"
    if "upper order_type = ''LIMIT'' \<and> limit_price = Some lp" for lp
    using that by (simp add: order_data_limit)
  show "\<exists>f. order_data_for_type now ticker order_side quantity order_type tif_enum
        limit_price stop_price trail_price trail_percent extended_hours client_order_id = Inr (StopOrderRequest f sp) \<and> req_type f = STOP"
    if "upper order_type = ''STOP'' \<and> stop_price = Some sp" for sp
    using that by (simp add: order_data_stop)
  show "\<exists>f. order_data_for_type now ticker order_side quantity order_type tif_enum
        limit_price stop_price trail_price trail_percent extended_hours client_order_id = Inr (StopLimitOrderRequest f sp lp) \<and> req_type f = STOP_LIMIT"
    if "upper order_type = ''STOP_LIMIT'' \<and> stop_price = Some sp \<and> limit_price = Some lp" for sp lp
    using that by (simp add: order_data_stop_limit)
qed

lemma required_messages_name:
  "named_price_fields ''limit_price is required for LIMIT orders.'' = [''limit_price''] \<and>
    named_price_fields ''stop_price is required for STOP orders.'' = [''stop_price''] \<and>
    named_price_fields ''Both stop_price and limit_price are required for STOP_LIMIT orders.'' = [''limit_price'', ''stop_price'']"
  by (simp add: named_price_fields_def)

lemma place_stock_order_prices:
  assumes "valid_side sd" "valid_time_in_force time_in_force"
  shows "(upper order_type = ''LIMIT'' \<and> limit_price = None \<longrightarrow>
      place_stock_order trade_client now ticker sd quantity order_type time_in_force
        limit_price stop_price trail_price trail_percent extended_hours client_order_id = (Message ''limit_price is required for LIMIT orders.'', [])) \<and>
    (upper order_type = ''STOP'' \<and> stop_price = None \<longrightarrow>
      place_stock_order trade_client now ticker sd quantity order_type time_in_force
        limit_price stop_price trail_price trail_percent extended_hours client_order_id = (Message ''stop_price is required for STOP orders.'', [])) \<and>
    (upper order_type = ''STOP_LIMIT'' \<and> (stop_price = None \<or> limit_price = None) \<longrightarrow>
      place_stock_order trade_client now ticker sd quantity order_type time_in_force
        limit_price stop_price trail_price trail_percent extended_hours client_order_id = (Message ''Both stop_price and limit_price are required for STOP_LIMIT orders.'', [])) \<and>
    (\<forall>lp. upper order_type = ''LIMIT'' \<and> limit_price = Some lp \<longrightarrow>
      (\<exists>f. snd (place_stock_order trade_client now ticker sd quantity order_type time_in_force
        limit_price stop_price trail_price trail_percent extended_hours client_order_id) = [LimitOrderRequest f lp] \<and> req_type f = LIMIT)) \<and>
    (\<forall>sp. upper order_type = ''STOP'' \<and> stop_price = Some sp \<longrightarrow>
      (\<exists>f. snd (place_stock_order trade_client now ticker sd quantity order_type time_in_force
        limit_price stop_price trail_price trail_percent extended_hours client_order_id) = [StopOrderRequest f sp] \<and> req_type f = STOP)) \<and>
    (\<forall>sp lp. upper order_type = ''STOP_LIMIT'' \<and> stop_price = Some sp \<and> limit_price = Some lp \<longrightarrow>
      (\<exists>f. snd (place_stock_order trade_client now ticker sd quantity order_type time_in_force
        limit_price stop_price trail_price trail_percent extended_hours client_order_id) = [StopLimitOrderRequest f sp lp] \<and> req_type f = STOP_LIMIT))"
proof -
  from assms build_stock_order_valid obtain t where
    b: "build_stock_order now ticker sd quantity order_type time_in_force
           limit_price stop_price trail_price trail_percent extended_hours client_order_id =
         order_data_for_type now ticker (side_of sd) quantity order_type t
           limit_price stop_price trail_price trail_percent extended_hours client_order_id"
    by blast
  note f = order_data_for_type_prices [of order_type limit_price now ticker "side_of sd" quantity t
          stop_price trail_price trail_percent extended_hours client_order_id]
  show ?thesis
  proof (intro conjI allI impI)
    show "place_stock_order trade_client now ticker sd quantity order_type time_in_force
        limit_price stop_price trail_price trail_percent extended_hours client_order_id = (Message ''limit_price is required for LIMIT orders.'', [])"
      if "upper order_type = ''LIMIT'' \<and> limit_price = None"
      using that f b by (simp add: place_stock_order_rejected)
    show "place_stock_order trade_client now ticker sd quantity order_type time_in_force
        limit_price stop_price trail_price trail_percent extended_hours client_order_id = (Message ''stop_price is required for STOP orders.'', [])"
      if "upper order_type = ''STOP'' \<and> stop_price = None"
      using that f b by (simp add: place_stock_order_rejected)
    show "place_stock_order trade_client now ticker sd quantity order_type time_in_force
        limit_price stop_price trail_price trail_percent extended_hours client_order_id = (Message ''Both stop_price and limit_price are required for STOP_LIMIT orders.'', [])"
      if "upper order_type = ''STOP_LIMIT'' \<and> (stop_price = None \<or> limit_price = None)"
      using that f b by (simp add: place_stock_order_rejected)
    show "\<exists>f. snd (place_stock_order trade_client now ticker sd quantity order_type time_in_force
        limit_price stop_price trail_price trail_percent extended_hours client_order_id) = [LimitOrderRequest f lp] \<and> req_type f = LIMIT"
      if "upper order_type = ''LIMIT'' \<and> limit_price = Some lp" for lp
      using that f b place_stock_order_built by metis
    show "\<exists>f. snd (place_stock_order trade_client now ticker sd quantity order_type time_in_force
        limit_price stop_price trail_price trail_percent extended_hours client_order_id) = [StopOrderRequest f sp] \<and> req_type f = STOP"
      if "upper order_type = ''STOP'' \<and> stop_price = Some sp" for sp
      using that f b place_stock_order_built by metis
    show "\<exists>f. snd (place_stock_order trade_client now ticker sd quantity order_type time_in_force
        limit_price stop_price trail_price trail_percent extended_hours client_order_id) = [StopLimitOrderRequest f sp lp] \<and> req_type f = STOP_LIMIT"
      if "upper order_type = ''STOP_LIMIT'' \<and> stop_price = Some sp \<and> limit_price = Some lp" for sp lp
      using that f b place_stock_order_built by metis
  qed
qed

lemmas upper_eval = upper_def upper_char_def

lemmas lower_eval = lower_def lower_char_def

text \<open>
  C3, as amended. In the dispatch on the order type (reached with the side and the
  time in force converted), a LIMIT order without \<open>limit_price\<close> returns the message
  naming \<open>limit_price\<close> only, a STOP order without \<open>stop_price\<close> the message naming
  \<open>stop_price\<close> only, and a STOP_LIMIT order without either of its two prices the one
  message that names both \<open>stop_price\<close> and \<open>limit_price\<close>, whichever is absent; with
  the required prices supplied the request built has the requested type. For a call of
  the tool with a valid side and time in force the message is returned with nothing
  submitted, and the request of the requested type is the one submitted.
\<close>

theorem companion_price_fields:
  "((upper order_type = ''LIMIT'' \<and> limit_price = None \<longrightarrow>
      order_data_for_type now ticker order_side quantity order_type tif_enum
        limit_price stop_price trail_price trail_percent extended_hours client_order_id = Inl ''limit_price is required for LIMIT orders.'') \<and>
    (upper order_type = ''STOP'' \<and> stop_price = None \<longrightarrow>
      order_data_for_type now ticker order_side quantity order_type tif_enum
        limit_price stop_price trail_price trail_percent extended_hours client_order_id = Inl ''stop_price is required for STOP orders.'') \<and>
    (upper order_type = ''STOP_LIMIT'' \<and> (stop_price = None \<or> limit_price = None) \<longrightarrow>
      order_data_for_type now ticker order_side quantity order_type tif_enum
        limit_price stop_price trail_price trail_percent extended_hours client_order_id = Inl ''Both stop_price and limit_price are required for STOP_LIMIT orders.'') \<and>
    (\<forall>lp. upper order_type = ''LIMIT'' \<and> limit_price = Some lp \<longrightarrow>
      (\<exists>f. order_data_for_type now ticker order_side quantity order_type tif_enum
        limit_price stop_price trail_price trail_percent extended_hours client_order_id = Inr (LimitOrderRequest f lp) \<and> req_type f = LIMIT)) \<and>
    (\<forall>sp. upper order_type = ''STOP'' \<and> stop_price = Some sp \<longrightarrow>
      (\<exists>f. order_data_for_type now ticker order_side quantity order_type tif_enum
        limit_price stop_price trail_price trail_percent extended_hours client_order_id = Inr (StopOrderRequest f sp) \<and> req_type f = STOP)) \<and>
    (\<forall>sp lp. upper order_type = ''STOP_LIMIT'' \<and> stop_price = Some sp \<and> limit_price = Some lp \<longrightarrow>
      (\<exists>f. order_data_for_type now ticker order_side quantity order_type tif_enum
        limit_price stop_price trail_price trail_percent extended_hours client_order_id = Inr (StopLimitOrderRequest f sp lp) \<and> req_type f = STOP_LIMIT))) \<and>
   (valid_side sd \<and> valid_time_in_force time_in_force \<longrightarrow>
    (upper order_type = ''LIMIT'' \<and> limit_price = None \<longrightarrow>
      place_stock_order trade_client now ticker sd quantity order_type time_in_force
        limit_price stop_price trail_price trail_percent extended_hours client_order_id = (Message ''limit_price is required for LIMIT orders.'', [])) \<and>
    (upper order_type = ''STOP'' \<and> stop_price = None \<longrightarrow>
      place_stock_order trade_client now ticker sd quantity order_type time_in_force
        limit_price stop_price trail_price trail_percent extended_hours client_order_id = (Message ''stop_price is required for STOP orders.'', [])) \<and>
    (upper order_type = ''STOP_LIMIT'' \<and> (stop_price = None \<or> limit_price = None) \<longrightarrow>
      place_stock_order trade_client now ticker sd quantity order_type time_in_force
        limit_price stop_price trail_price trail_percent extended_hours client_order_id = (Message ''Both stop_price and limit_price are required for STOP_LIMIT orders.'', [])) \<and>
    (\<forall>lp. upper order_type = ''LIMIT'' \<and> limit_price = Some lp \<longrightarrow>
      (\<exists>f. snd (place_stock_order trade_client now ticker sd quantity order_type time_in_force
        limit_price stop_price trail_price trail_percent extended_hours client_order_id) = [LimitOrderRequest f lp] \<and> req_type f = LIMIT)) \<and>
    (\<forall>sp. upper order_type = ''STOP'' \<and> stop_price = Some sp \<longrightarrow>
      (\<exists>f. snd (place_stock_order trade_client now ticker sd quantity order_type time_in_force
        limit_price stop_price trail_price trail_percent extended_hours client_order_id) = [StopOrderRequest f sp] \<and> req_type f = STOP)) \<and>
    (\<forall>sp lp. upper order_type = ''STOP_LIMIT'' \<and> stop_price = Some sp \<and> limit_price = Some lp \<longrightarrow>
      (\<exists>f. snd (place_stock_order trade_client now ticker sd quantity order_type time_in_force
        limit_price stop_price trail_price trail_percent extended_hours client_order_id) = [StopLimitOrderRequest f sp lp] \<and> req_type f = STOP_LIMIT))) \<and>
    named_price_fields ''limit_price is required for LIMIT orders.'' = [''limit_price''] \<and>
    named_price_fields ''stop_price is required for STOP orders.'' = [''stop_price''] \<and>
    named_price_fields ''Both stop_price and limit_price are required for STOP_LIMIT orders.'' = [''limit_price'', ''stop_price'']"
proof -
  have a: "(upper order_type = ''LIMIT'' \<and> limit_price = None \<longrightarrow>
      order_data_for_type now ticker order_side quantity order_type tif_enum
        limit_price stop_price trail_price trail_percent extended_hours client_order_id = Inl ''limit_price is required for LIMIT orders.'') \<and>
    (upper order_type = ''STOP'' \<and> stop_price = None \<longrightarrow>
      order_data_for_type now ticker order_side quantity order_type tif_enum
        limit_price stop_price trail_price trail_percent extended_hours client_order_id = Inl ''stop_price is required for STOP orders.'') \<and>
    (upper order_type = ''STOP_LIMIT'' \<and> (stop_price = None \<or> limit_price = None) \<longrightarrow>
      order_data_for_type now ticker order_side quantity order_type tif_enum
        limit_price stop_price trail_price trail_percent extended_hours client_order_id = Inl ''Both stop_price and limit_price are required for STOP_LIMIT orders.'') \<and>
    (\<forall>lp. upper order_type = ''LIMIT'' \<and> limit_price = Some lp \<longrightarrow>
      (\<exists>f. order_data_for_type now ticker order_side quantity order_type tif_enum
        limit_price stop_price trail_price trail_percent extended_hours client_order_id = Inr (LimitOrderRequest f lp) \<and> req_type f = LIMIT)) \<and>
    (\<forall>sp. upper order_type = ''STOP'' \<and> stop_price = Some sp \<longrightarrow>
      (\<exists>f. order_data_for_type now ticker order_side quantity order_type tif_enum
        limit_price stop_price trail_price trail_percent extended_hours client_order_id = Inr (StopOrderRequest f sp) \<and> req_type f = STOP)) \<and>
    (\<forall>sp lp. upper order_type = ''STOP_LIMIT'' \<and> stop_price = Some sp \<and> limit_price = Some lp \<longrightarrow>
      (\<exists>f. order_data_for_type now ticker order_side quantity order_type tif_enum
        limit_price stop_price trail_price trail_percent extended_hours client_order_id = Inr (StopLimitOrderRequest f sp lp) \<and> req_type f = STOP_LIMIT))"
    by (rule order_data_for_type_prices)
  have b: "valid_side sd \<and> valid_time_in_force time_in_force \<longrightarrow>
    (upper order_type = ''LIMIT'' \<and> limit_price = None \<longrightarrow>
      place_stock_order trade_client now ticker sd quantity order_type time_in_force
        limit_price stop_price trail_price trail_percent extended_hours client_order_id = (Message ''limit_price is required for LIMIT orders.'', [])) \<and>
    (upper order_type = ''STOP'' \<and> stop_price = None \<longrightarrow>
      place_stock_order trade_client now ticker sd quantity order_type time_in_force
        limit_price stop_price trail_price trail_percent extended_hours client_order_id = (Message ''stop_price is required for STOP orders.'', [])) \<and>
    (upper order_type = ''STOP_LIMIT'' \<and> (stop_price = None \<or> limit_price = None) \<longrightarrow>
      place_stock_order trade_client now ticker sd quantity order_type time_in_force
        limit_price stop_price trail_price trail_percent extended_hours client_order_id = (Message ''Both stop_price and limit_price are required for STOP_LIMIT orders.'', [])) \<and>
    (\<forall>lp. upper order_type = ''LIMIT'' \<and> limit_price = Some lp \<longrightarrow>
      (\<exists>f. snd (place_stock_order trade_client now ticker sd quantity order_type time_in_force
        limit_price stop_price trail_price trail_percent extended_hours client_order_id) = [LimitOrderRequest f lp] \<and> req_type f = LIMIT)) \<and>
    (\<forall>sp. upper order_type = ''STOP'' \<and> stop_price = Some sp \<longrightarrow>
      (\<exists>f. snd (place_stock_order trade_client now ticker sd quantity order_type time_in_force
        limit_price stop_price trail_price trail_percent extended_hours client_order_id) = [StopOrderRequest f sp] \<and> req_type f = STOP)) \<and>
    (\<forall>sp lp. upper order_type = ''STOP_LIMIT'' \<and> stop_price = Some sp \<and> limit_price = Some lp \<longrightarrow>
      (\<exists>f. snd (place_stock_order trade_client now ticker sd quantity order_type time_in_force
        limit_price stop_price trail_price trail_percent extended_hours client_order_id) = [StopLimitOrderRequest f sp lp] \<and> req_type f = STOP_LIMIT))"
    by (intro impI, elim conjE, erule (1) place_stock_order_prices)
  have c: "named_price_fields ''limit_price is required for LIMIT orders.'' = [''limit_price''] \<and>
    named_price_fields ''stop_price is required for STOP orders.'' = [''stop_price''] \<and>
    named_price_fields ''Both stop_price and limit_price are required for STOP_LIMIT orders.'' = [''limit_price'', ''stop_price'']"
    by (rule required_messages_name)
  show ?thesis by (rule conjI [OF a conjI [OF b c]])
qed

theorem companion_price_fields_witness:
  "order_data_for_type 0 ''AAPL'' BUY 10 ''limit'' DAY None None None None False None
     = Inl ''limit_price is required for LIMIT orders.'' \<and>
   place_stock_order (\<lambda>r. Inl (APIError ''rejected'') :: exn + unit) 0 ''AAPL'' ''buy'' 10 ''stop''
       (TifStr ''gtc'') None None None None False None
     = (Message ''stop_price is required for STOP orders.'', []) \<and>
   (\<exists>f. snd (place_stock_order (\<lambda>r. Inl (APIError ''rejected'') :: exn + unit) 0 ''AAPL'' ''buy'' 10
       ''limit'' (TifStr ''day'') (Some 12) None None None False None)
     = [LimitOrderRequest f 12] \<and> req_type f = LIMIT)"
proof -
  have u: "upper ''limit'' = ''LIMIT''" "upper ''stop'' = ''STOP''" by (simp_all add: upper_eval)
  have v: "valid_side ''buy''" "valid_time_in_force (TifStr ''gtc'')" "valid_time_in_force (TifStr ''day'')"
    by (simp_all add: valid_side_def valid_time_in_force_def lower_eval upper_eval)
  have "order_data_for_type 0 ''AAPL'' BUY 10 ''limit'' DAY None None None None False None
     = Inl ''limit_price is required for LIMIT orders.''"
    using companion_price_fields [where order_type = "''limit''" and limit_price = None and now = 0
        and ticker = "''AAPL''" and order_side = BUY and quantity = 10 and tif_enum = DAY
        and stop_price = None and trail_price = None and trail_percent = None
        and extended_hours = False and client_order_id = None, THEN conjunct1] u
    by simp
  moreover have "place_stock_order (\<lambda>r. Inl (APIError ''rejected'') :: exn + unit) 0 ''AAPL'' ''buy'' 10 ''stop''
       (TifStr ''gtc'') None None None None False None
     = (Message ''stop_price is required for STOP orders.'', [])"
    using companion_price_fields [where order_type = "''stop''" and limit_price = None and now = 0
        and ticker = "''AAPL''" and sd = "''buy''" and quantity = 10
        and time_in_force = "TifStr ''gtc''"
        and stop_price = None and trail_price = None and trail_percent = None
        and extended_hours = False and client_order_id = None
        and trade_client = "\<lambda>r. Inl (APIError ''rejected'') :: exn + unit",
        THEN conjunct2, THEN conjunct1] u v
    by simp
  moreover have "\<exists>f. snd (place_stock_order (\<lambda>r. Inl (APIError ''rejected'') :: exn + unit) 0 ''AAPL'' ''buy'' 10
       ''limit'' (TifStr ''day'') (Some 12) None None None False None)
     = [LimitOrderRequest f 12] \<and> req_type f = LIMIT"
    using companion_price_fields [where order_type = "''limit''" and limit_price = "Some 12" and now = 0
        and ticker = "''AAPL''" and sd = "''buy''" and quantity = 10
        and time_in_force = "TifStr ''day''"
        and stop_price = None and trail_price = None and trail_percent = None
        and extended_hours = False and client_order_id = None
        and trade_client = "\<lambda>r. Inl (APIError ''rejected'') :: exn + unit",
        THEN conjunct2, THEN conjunct1] u v
    by simp
  ultimately show ?thesis by simp
qed

text \<open>The claim as stated fails for STOP_LIMIT: with \<open>stop_price\<close> supplied and
  \<open>limit_price\<close> absent the message also names \<open>stop_price\<close>.\<close>

theorem stop_limit_message_counterexample:
  "place_stock_order (\<lambda>r. Inl (APIError ''rejected'') :: exn + unit) 0 ''AAPL'' ''buy'' 10 ''stop_limit''
       (TifStr ''day'') None (Some 95) None None False None
     = (Message ''Both stop_price and limit_price are required for STOP_LIMIT orders.'', []) \<and>
   contains ''stop_price'' ''Both stop_price and limit_price are required for STOP_LIMIT orders.''"
  by (simp add: place_stock_order_def build_stock_order_def order_data_for_type_def
      lower_eval upper_eval)

text \<open>
  C6. For every order type that reads TRAILING_STOP in upper case, the dispatch returns
  a validation message if and only if neither \<open>trail_price\<close> nor \<open>trail_percent\<close> is
  supplied; with one of them, or both, it builds a \<open>TrailingStopOrderRequest\<close> of type
  TRAILING_STOP carrying the two values as supplied. For a call of the tool with a
  valid side and time in force: the reply is a message with nothing submitted exactly
  when neither is supplied, and otherwise that request is submitted.
\<close>

theorem trailing_stop_at_least_one:
  assumes "upper order_type = ''TRAILING_STOP''"
  shows
   "((\<exists>msg. order_data_for_type now ticker order_side quantity order_type tif_enum
        limit_price stop_price trail_price trail_percent extended_hours client_order_id = Inl msg)
      \<longleftrightarrow> trail_price = None \<and> trail_percent = None) \<and>
    (trail_price \<noteq> None \<or> trail_percent \<noteq> None \<longrightarrow>
      (\<exists>f. order_data_for_type now ticker order_side quantity order_type tif_enum
          limit_price stop_price trail_price trail_percent extended_hours client_order_id
          = Inr (TrailingStopOrderRequest f trail_price trail_percent) \<and> req_type f = TRAILING_STOP)) \<and>
    (valid_side sd \<and> valid_time_in_force time_in_force \<longrightarrow>
      ((\<exists>msg. place_stock_order trade_client now ticker sd quantity order_type time_in_force
          limit_price stop_price trail_price trail_percent extended_hours client_order_id
          = (Message msg, []))
        \<longleftrightarrow> trail_price = None \<and> trail_percent = None) \<and>
      (trail_price \<noteq> None \<or> trail_percent \<noteq> None \<longrightarrow>
        (\<exists>f. snd (place_stock_order trade_client now ticker sd quantity order_type time_in_force
            limit_price stop_price trail_price trail_percent extended_hours client_order_id)
          = [TrailingStopOrderRequest f trail_price trail_percent] \<and> req_type f = TRAILING_STOP)))"
proof -
  have d: "\<And>os t. order_data_for_type now ticker os quantity order_type t
        limit_price stop_price trail_price trail_percent extended_hours client_order_id =
      (if trail_price = None \<and> trail_percent = None
       then Inl ''Either trail_price or trail_percent is required for TRAILING_STOP orders.''
       else Inr (TrailingStopOrderRequest
         \<lparr>req_symbol = Some ticker, req_qty = quantity, req_side = Some os,
          req_type = TRAILING_STOP, req_time_in_force = t, req_extended_hours = extended_hours,
          req_client_order_id = client_order_id_or_default client_order_id now,
          req_order_class = None, req_legs = None\<rparr> trail_price trail_percent))"
    using assms by (simp add: order_data_for_type_def Let_def)
  have frag: "((\<exists>msg. order_data_for_type now ticker order_side quantity order_type tif_enum
        limit_price stop_price trail_price trail_percent extended_hours client_order_id = Inl msg)
      \<longleftrightarrow> trail_price = None \<and> trail_percent = None) \<and>
    (trail_price \<noteq> None \<or> trail_percent \<noteq> None \<longrightarrow>
      (\<exists>f. order_data_for_type now ticker order_side quantity order_type tif_enum
          limit_price stop_price trail_price trail_percent extended_hours client_order_id
          = Inr (TrailingStopOrderRequest f trail_price trail_percent) \<and> req_type f = TRAILING_STOP))"
    unfolding d by auto
  have tool: "((\<exists>msg. place_stock_order trade_client now ticker sd quantity order_type time_in_force
          limit_price stop_price trail_price trail_percent extended_hours client_order_id
          = (Message msg, []))
        \<longleftrightarrow> trail_price = None \<and> trail_percent = None) \<and>
      (trail_price \<noteq> None \<or> trail_percent \<noteq> None \<longrightarrow>
        (\<exists>f. snd (place_stock_order trade_client now ticker sd quantity order_type time_in_force
            limit_price stop_price trail_price trail_percent extended_hours client_order_id)
          = [TrailingStopOrderRequest f trail_price trail_percent] \<and> req_type f = TRAILING_STOP))"
    if v: "valid_side sd \<and> valid_time_in_force time_in_force"
  proof -
    from v build_stock_order_valid obtain t where
      b: "build_stock_order now ticker sd quantity order_type time_in_force
             limit_price stop_price trail_price trail_percent extended_hours client_order_id =
           order_data_for_type now ticker (side_of sd) quantity order_type t
             limit_price stop_price trail_price trail_percent extended_hours client_order_id"
      by blast
    show ?thesis
      unfolding place_stock_order_def b d by (auto split: sum.splits)
  qed
  from frag tool show ?thesis by blast
qed

theorem trailing_stop_at_least_one_witness:
  "(\<exists>msg. order_data_for_type 0 ''AAPL'' SELL 10 ''trailing_stop'' GTC None None None None False None
      = Inl msg) \<and>
   (\<exists>f. order_data_for_type 0 ''AAPL'' SELL 10 ''trailing_stop'' GTC None None (Some 2) (Some 5) False None
      = Inr (TrailingStopOrderRequest f (Some 2) (Some 5)) \<and> req_type f = TRAILING_STOP) \<and>
   (\<exists>f. snd (place_stock_order (\<lambda>r. Inl (APIError ''rejected'') :: exn + unit) 0 ''AAPL'' ''sell'' 10
       ''Trailing_Stop'' (TifStr ''gtc'') None None None (Some 5) False None)
      = [TrailingStopOrderRequest f None (Some 5)] \<and> req_type f = TRAILING_STOP)"
proof -
  have u: "upper ''trailing_stop'' = ''TRAILING_STOP''" "upper ''Trailing_Stop'' = ''TRAILING_STOP''"
    by (simp_all add: upper_eval)
  have v: "valid_side ''sell''" "valid_time_in_force (TifStr ''gtc'')"
    by (simp_all add: valid_side_def valid_time_in_force_def lower_eval upper_eval)
  have "\<exists>msg. order_data_for_type 0 ''AAPL'' SELL 10 ''trailing_stop'' GTC None None None None False None
      = Inl msg"
    using trailing_stop_at_least_one [OF u(1), where trail_price = None and trail_percent = None
        and now = 0 and ticker = "''AAPL''" and order_side = SELL and quantity = 10 and tif_enum = GTC
        and limit_price = None and stop_price = None and extended_hours = False
        and client_order_id = None, THEN conjunct1]
    by simp
  moreover have "\<exists>f. order_data_for_type 0 ''AAPL'' SELL 10 ''trailing_stop'' GTC None None (Some 2) (Some 5) False None
      = Inr (TrailingStopOrderRequest f (Some 2) (Some 5)) \<and> req_type f = TRAILING_STOP"
    using trailing_stop_at_least_one [OF u(1), where trail_price = "Some 2" and trail_percent = "Some 5"
        and now = 0 and ticker = "''AAPL''" and order_side = SELL and quantity = 10 and tif_enum = GTC
        and limit_price = None and stop_price = None and extended_hours = False
        and client_order_id = None, THEN conjunct2, THEN conjunct1]
    by simp
  moreover have "\<exists>f. snd (place_stock_order (\<lambda>r. Inl (APIError ''rejected'') :: exn + unit) 0 ''AAPL'' ''sell'' 10
       ''Trailing_Stop'' (TifStr ''gtc'') None None None (Some 5) False None)
      = [TrailingStopOrderRequest f None (Some 5)] \<and> req_type f = TRAILING_STOP"
    using trailing_stop_at_least_one [OF u(2), where trail_price = None and trail_percent = "Some 5"
        and now = 0 and ticker = "''AAPL''" and sd = "''sell''" and quantity = 10
        and time_in_force = "TifStr ''gtc''"
        and limit_price = None and stop_price = None and extended_hours = False
        and client_order_id = None
        and trade_client = "\<lambda>r. Inl (APIError ''rejected'') :: exn + unit",
        THEN conjunct2, THEN conjunct2] v
    by simp
  ultimately show ?thesis by simp
qed

subsection \<open>Option legs\<close>

lemma process_loop_valid:
  "list_all valid_leg legs \<Longrightarrow>
   process_option_legs_loop acc legs = Inr (acc @ map leg_request legs)"
proof (induction legs arbitrary: acc)
  case Nil
  then show ?case by simp
next
  case (Cons l rest)
  from Cons.prems have v: "valid_leg l" and r: "list_all valid_leg rest" by simp_all
  from v obtain n where n: "int_value (ratio_qty l) = Some n" "0 < n"
    by (auto simp: valid_leg_def split: option.splits)
  from v have s: "lower (side l) = ''buy'' \<or> lower (side l) = ''sell''"
    by (simp add: valid_leg_def valid_side_def)
  show ?case
  proof (cases "lower (side l) = ''buy''")
    case True
    with n Cons.IH [OF r] show ?thesis by (simp add: leg_request_def side_of_def)
  next
    case False
    with s have "lower (side l) = ''sell''" by simp
    with False n Cons.IH [OF r] show ?thesis by (simp add: leg_request_def side_of_def)
  qed
qed

lemma process_loop_invalid:
  "\<not> list_all valid_leg legs \<Longrightarrow> \<exists>msg. process_option_legs_loop acc legs = Inl msg"
proof (induction legs arbitrary: acc)
  case Nil
  then show ?case by simp
next
  case (Cons l rest)
  show ?case
  proof (cases "valid_leg l")
    case True
    with Cons.prems have "\<not> list_all valid_leg rest" by simp
    from Cons.IH [OF this] True show ?thesis
      by (auto simp: valid_leg_def valid_side_def split: option.splits)
  next
    case False
    then show ?thesis
      by (auto simp: valid_leg_def valid_side_def split: option.splits)
  qed
qed

lemma process_option_legs_valid:
  "list_all valid_leg legs \<Longrightarrow> process_option_legs legs = Inr (map leg_request legs)"
  by (simp add: process_option_legs_def process_loop_valid)

lemma process_option_legs_invalid:
  "\<not> list_all valid_leg legs \<Longrightarrow> \<exists>msg. process_option_legs legs = Inl msg"
  by (simp add: process_option_legs_def process_loop_invalid)

text \<open>What the processor accepts has, in every leg, a ratio quantity that is an integer
  of at least 1 and a side that reads buy or sell.\<close>

lemma process_option_legs_accepts:
  "process_option_legs legs = Inr order_legs \<Longrightarrow>
   list_all valid_leg legs \<and> order_legs = map leg_request legs"
  using process_option_legs_invalid [of legs] process_option_legs_valid [of legs]
  by (cases "list_all valid_leg legs") auto

lemma validate_none_iff:
  "validate_option_order_inputs legs quantity time_in_force = None \<longleftrightarrow>
     legs \<noteq> [] \<and> length legs \<le> 4 \<and> 0 < quantity \<and> time_in_force = DAY"
  by (auto simp: validate_option_order_inputs_def)

lemma convert_valid:
  "valid_order_class order_cls \<Longrightarrow> \<exists>c. convert_order_class_string order_cls = Inr c"
  by (cases order_cls)
     (auto simp: convert_order_class_string_def valid_order_class_def class_mapping_def)

lemma convert_invalid:
  "\<not> valid_order_class order_cls \<Longrightarrow> \<exists>msg. convert_order_class_string order_cls = Inl msg"
  by (cases order_cls)
     (auto simp: convert_order_class_string_def valid_order_class_def class_mapping_def)

text \<open>
  C5. With more than 4 legs the input validation returns the failure \<open>Error: Maximum
  of 4 legs allowed for option orders\<close>, whatever the other arguments are, and the tool
  returns it with nothing submitted. With exactly 4 legs that are all valid (a ratio
  quantity that is a positive integer, a side that reads buy or sell), a positive
  quantity and the time in force DAY, the validation passes and the leg processor
  returns exactly 4 leg requests, one per input leg in the order of the input.
\<close>

theorem leg_count_and_order:
  "(4 < length legs \<longrightarrow>
      validate_option_order_inputs legs quantity time_in_force
        = Some ''Error: Maximum of 4 legs allowed for option orders'' \<and>
      place_option_market_order trade_client now legs order_cls quantity time_in_force extended_hours
        = (Inr (Message ''Error: Maximum of 4 legs allowed for option orders''), [])) \<and>
   (length legs = 4 \<and> list_all valid_leg legs \<and> 0 < quantity \<and> time_in_force = DAY \<longrightarrow>
      validate_option_order_inputs legs quantity time_in_force = None \<and>
      (\<exists>order_legs. process_option_legs legs = Inr order_legs \<and> length order_legs = 4 \<and>
         order_legs = map leg_request legs \<and> map leg_symbol order_legs = map symbol legs))"
proof (intro conjI impI)
  assume a: "4 < length legs"
  then have "legs \<noteq> []" by auto
  with a show v: "validate_option_order_inputs legs quantity time_in_force
        = Some ''Error: Maximum of 4 legs allowed for option orders''"
    by (simp add: validate_option_order_inputs_def)
  then show "place_option_market_order trade_client now legs order_cls quantity time_in_force extended_hours
        = (Inr (Message ''Error: Maximum of 4 legs allowed for option orders''), [])"
    by (simp add: place_option_market_order_def)
next
  assume a: "length legs = 4 \<and> list_all valid_leg legs \<and> 0 < quantity \<and> time_in_force = DAY"
  then have "legs \<noteq> []" by auto
  with a show "validate_option_order_inputs legs quantity time_in_force = None"
    by (simp add: validate_none_iff)
  from a have "process_option_legs legs = Inr (map leg_request legs)"
    by (simp add: process_option_legs_valid)
  with a show "\<exists>order_legs. process_option_legs legs = Inr order_legs \<and> length order_legs = 4 \<and>
         order_legs = map leg_request legs \<and> map leg_symbol order_legs = map symbol legs"
    by (simp add: leg_request_def comp_def)
qed


theorem leg_count_and_order_witness:
  "place_option_market_order (\<lambda>r. Inl (APIError ''rejected'') :: exn + unit) 0
     [\<lparr>symbol = ''XYZ230616C00150000'', side = ''buy'', ratio_qty = PyInt 1\<rparr>,
      \<lparr>symbol = ''XYZ230616C00155000'', side = ''sell'', ratio_qty = PyInt 1\<rparr>,
      \<lparr>symbol = ''XYZ230616P00140000'', side = ''sell'', ratio_qty = PyInt 1\<rparr>,
      \<lparr>symbol = ''XYZ230616P00135000'', side = ''buy'', ratio_qty = PyInt 1\<rparr>,
      \<lparr>symbol = ''XYZ230616P00130000'', side = ''hold'', ratio_qty = PyNone\<rparr>]
     (ClassStr ''nonsense'') 0 GTC False
     = (Inr (Message ''Error: Maximum of 4 legs allowed for option orders''), []) \<and>
   process_option_legs
     [\<lparr>symbol = ''XYZ230616C00150000'', side = ''buy'', ratio_qty = PyInt 1\<rparr>,
      \<lparr>symbol = ''XYZ230616C00155000'', side = ''SELL'', ratio_qty = PyInt 2\<rparr>,
      \<lparr>symbol = ''XYZ230616P00140000'', side = ''Sell'', ratio_qty = PyInt 2\<rparr>,
      \<lparr>symbol = ''XYZ230616P00135000'', side = ''Buy'', ratio_qty = PyInt 1\<rparr>]
     = Inr [\<lparr>leg_symbol = ''XYZ230616C00150000'', leg_side = BUY, leg_ratio_qty = PyInt 1\<rparr>,
            \<lparr>leg_symbol = ''XYZ230616C00155000'', leg_side = SELL, leg_ratio_qty = PyInt 2\<rparr>,
            \<lparr>leg_symbol = ''XYZ230616P00140000'', leg_side = SELL, leg_ratio_qty = PyInt 2\<rparr>,
            \<lparr>leg_symbol = ''XYZ230616P00135000'', leg_side = BUY, leg_ratio_qty = PyInt 1\<rparr>]"
proof -
  let ?five = "[\<lparr>symbol = ''XYZ230616C00150000'', side = ''buy'', ratio_qty = PyInt 1\<rparr>,
      \<lparr>symbol = ''XYZ230616C00155000'', side = ''sell'', ratio_qty = PyInt 1\<rparr>,
      \<lparr>symbol = ''XYZ230616P00140000'', side = ''sell'', ratio_qty = PyInt 1\<rparr>,
      \<lparr>symbol = ''XYZ230616P00135000'', side = ''buy'', ratio_qty = PyInt 1\<rparr>,
      \<lparr>symbol = ''XYZ230616P00130000'', side = ''hold'', ratio_qty = PyNone\<rparr>]"
  let ?four = "[\<lparr>symbol = ''XYZ230616C00150000'', side = ''buy'', ratio_qty = PyInt 1\<rparr>,
      \<lparr>symbol = ''XYZ230616C00155000'', side = ''SELL'', ratio_qty = PyInt 2\<rparr>,
      \<lparr>symbol = ''XYZ230616P00140000'', side = ''Sell'', ratio_qty = PyInt 2\<rparr>,
      \<lparr>symbol = ''XYZ230616P00135000'', side = ''Buy'', ratio_qty = PyInt 1\<rparr>]"
  have five: "4 < length ?five" by simp
  have four: "length ?four = 4 \<and> list_all valid_leg ?four \<and> (0::int) < 1 \<and> DAY = DAY"
    by (simp add: valid_leg_def valid_side_def lower_eval)
  note t1 = leg_count_and_order [where legs = "?five", THEN conjunct1, rule_format, OF five, THEN conjunct2]
  note t2 = leg_count_and_order [where legs = "?four" and quantity = 1 and time_in_force = DAY,
      THEN conjunct2, rule_format, OF four, THEN conjunct2]
  have "process_option_legs ?four = Inr (map leg_request ?four)" using t2 by blast
  then have "process_option_legs ?four
     = Inr [\<lparr>leg_symbol = ''XYZ230616C00150000'', leg_side = BUY, leg_ratio_qty = PyInt 1\<rparr>,
            \<lparr>leg_symbol = ''XYZ230616C00155000'', leg_side = SELL, leg_ratio_qty = PyInt 2\<rparr>,
            \<lparr>leg_symbol = ''XYZ230616P00140000'', leg_side = SELL, leg_ratio_qty = PyInt 2\<rparr>,
            \<lparr>leg_symbol = ''XYZ230616P00135000'', leg_side = BUY, leg_ratio_qty = PyInt 1\<rparr>]"
    by (simp add: leg_request_def side_of_def lower_eval)
  with t1 show ?thesis by simp
qed

text \<open>
  C7. A leg with \<open>ratio_qty = 5\<close> is accepted: the leg processor tests that the value
  is an integer and greater than 0, and has no upper bound. The tool submits the
  multi-leg order with that leg.
\<close>

theorem ratio_qty_above_four_accepted:
  "process_option_legs
     [\<lparr>symbol = ''AAPL230616C00150000'', side = ''buy'', ratio_qty = PyInt 5\<rparr>,
      \<lparr>symbol = ''AAPL230616C00160000'', side = ''sell'', ratio_qty = PyInt 1\<rparr>]
     = Inr [\<lparr>leg_symbol = ''AAPL230616C00150000'', leg_side = BUY, leg_ratio_qty = PyInt 5\<rparr>,
            \<lparr>leg_symbol = ''AAPL230616C00160000'', leg_side = SELL, leg_ratio_qty = PyInt 1\<rparr>] \<and>
   snd (place_option_market_order (\<lambda>r. Inl (APIError ''rejected'') :: exn + unit) 0
     [\<lparr>symbol = ''AAPL230616C00150000'', side = ''buy'', ratio_qty = PyInt 5\<rparr>,
      \<lparr>symbol = ''AAPL230616C00160000'', side = ''sell'', ratio_qty = PyInt 1\<rparr>]
     ClassNone 1 DAY False)
     = [MarketOrderRequest
         \<lparr>req_symbol = None, req_qty = 1, req_side = None, req_type = MARKET,
          req_time_in_force = DAY, req_extended_hours = False,
          req_client_order_id = ''mcp_opt_0'', req_order_class = Some MLEG,
          req_legs = Some
            [\<lparr>leg_symbol = ''AAPL230616C00150000'', leg_side = BUY, leg_ratio_qty = PyInt 5\<rparr>,
             \<lparr>leg_symbol = ''AAPL230616C00160000'', leg_side = SELL, leg_ratio_qty = PyInt 1\<rparr>]\<rparr>]"
  by (simp add: process_option_legs_def place_option_market_order_def
      validate_option_order_inputs_def convert_order_class_string_def
      create_option_market_order_request_def handle_option_api_error_def
      order_failure_message_def str_int_def lower_eval)

subsection \<open>Validation before submission\<close>

lemma order_data_trailing_missing:
  "upper order_type = ''TRAILING_STOP'' \<Longrightarrow> trail_price = None \<Longrightarrow> trail_percent = None \<Longrightarrow>
   order_data_for_type now ticker order_side qty order_type tif_enum
        limit_price stop_price trail_price trail_percent extended_hours client_order_id = Inl ''Either trail_price or trail_percent is required for TRAILING_STOP orders.''"
  by (simp add: order_data_for_type_def Let_def)

lemma order_data_invalid_type:
  "\<not> valid_order_type order_type \<Longrightarrow>
   order_data_for_type now ticker order_side qty order_type tif_enum
        limit_price stop_price trail_price trail_percent extended_hours client_order_id = Inl (''Invalid order type: '' @ order_type @
             ''. Must be one of: MARKET, LIMIT, STOP, STOP_LIMIT, TRAILING_STOP.'')"
  by (simp add: order_data_for_type_def Let_def valid_order_type_def)

lemma order_data_rejects:
  assumes "\<not> valid_order_type order_type \<or>
      missing_price_field order_type limit_price stop_price trail_price trail_percent"
  shows "\<exists>msg. order_data_for_type now ticker order_side qty order_type tif_enum
        limit_price stop_price trail_price trail_percent extended_hours client_order_id = Inl msg"
proof (cases "valid_order_type order_type")
  case False
  then show ?thesis by (simp add: order_data_invalid_type)
next
  case True
  with assms have "missing_price_field order_type limit_price stop_price trail_price trail_percent"
    by simp
  then consider
      "upper order_type = ''LIMIT''" "limit_price = None"
    | "upper order_type = ''STOP''" "stop_price = None"
    | "upper order_type = ''STOP_LIMIT''" "stop_price = None \<or> limit_price = None"
    | "upper order_type = ''TRAILING_STOP''" "trail_price = None" "trail_percent = None"
    unfolding missing_price_field_def by blast
  then show ?thesis
  proof cases
    case 1 then show ?thesis by (simp add: order_data_limit)
  next
    case 2 then show ?thesis by (simp add: order_data_stop)
  next
    case 3 then show ?thesis by (auto simp: order_data_stop_limit split: option.splits)
  next
    case 4 then show ?thesis by (simp add: order_data_trailing_missing)
  qed
qed

lemma build_stock_order_rejects:
  assumes "\<not> valid_side sd \<or> \<not> valid_time_in_force tif_in \<or> \<not> valid_order_type order_type \<or>
      missing_price_field order_type limit_price stop_price trail_price trail_percent"
  shows "\<exists>msg. build_stock_order now ticker sd qty order_type tif_in
        limit_price stop_price trail_price trail_percent extended_hours client_order_id = Inl msg"
proof (cases "valid_side sd")
  case False
  then show ?thesis by (simp add: build_stock_order_def valid_side_def)
next
  case vs: True
  show ?thesis
  proof (cases "valid_time_in_force tif_in")
    case False
    with vs show ?thesis
      by (cases tif_in)
         (auto simp: build_stock_order_def valid_side_def valid_time_in_force_def Let_def)
  next
    case True
    with vs build_stock_order_valid obtain t where
      b: "build_stock_order now ticker sd qty order_type tif_in
        limit_price stop_price trail_price trail_percent extended_hours client_order_id =
         order_data_for_type now ticker (side_of sd) qty order_type t
           limit_price stop_price trail_price trail_percent extended_hours client_order_id"
      by blast
    from vs True assms have "\<not> valid_order_type order_type \<or>
      missing_price_field order_type limit_price stop_price trail_price trail_percent" by simp
    from order_data_rejects [OF this] b show ?thesis by simp
  qed
qed

lemma place_option_rejects:
  assumes "legs = [] \<or> 4 < length legs \<or> quantity \<le> 0 \<or> time_in_force \<noteq> DAY \<or>
      \<not> valid_order_class order_cls \<or> \<not> list_all valid_leg legs"
  shows "\<exists>msg. place_option_market_order trade_client now legs order_cls quantity time_in_force extended_hours = (Inr (Message msg), [])"
proof (cases "validate_option_order_inputs legs quantity time_in_force")
  case (Some e)
  then show ?thesis by (simp add: place_option_market_order_def)
next
  case None
  then have ok: "legs \<noteq> [] \<and> length legs \<le> 4 \<and> 0 < quantity \<and> time_in_force = DAY"
    by (simp add: validate_none_iff)
  with assms have c: "\<not> valid_order_class order_cls \<or> \<not> list_all valid_leg legs" by auto
  show ?thesis
  proof (cases "valid_order_class order_cls")
    case False
    from convert_invalid [OF this] None show ?thesis
      by (auto simp: place_option_market_order_def)
  next
    case True
    with c have "\<not> list_all valid_leg legs" by simp
    from process_option_legs_invalid [OF this] convert_valid [OF True] None show ?thesis
      by (auto simp: place_option_market_order_def Let_def)
  qed
qed

text \<open>
  C9. When an input check of the stock tool fails (the side, the time in force or the
  order type is invalid, or a required price field is missing), and when an input
  check of the option tool fails (no leg, more than 4 legs, a quantity that is not
  positive, a time in force other than DAY, an invalid order class string, a leg with
  an invalid ratio quantity or side), the tool returns a message and the list of
  requests passed to \<open>submit_order\<close> is empty.
\<close>

theorem validation_before_submission:
  "(\<not> valid_side sd \<or> \<not> valid_time_in_force tif_in \<or> \<not> valid_order_type order_type \<or>
      missing_price_field order_type limit_price stop_price trail_price trail_percent \<longrightarrow>
      (\<exists>msg. place_stock_order stock_client now ticker sd qty order_type tif_in
        limit_price stop_price trail_price trail_percent extended_hours client_order_id = (Message msg, []))) \<and>
   (legs = [] \<or> 4 < length legs \<or> quantity \<le> 0 \<or> time_in_force \<noteq> DAY \<or>
      \<not> valid_order_class order_cls \<or> \<not> list_all valid_leg legs \<longrightarrow>
      (\<exists>msg. place_option_market_order trade_client now legs order_cls quantity time_in_force extended_hours = (Inr (Message msg), [])))"
proof (intro conjI impI)
  assume "\<not> valid_side sd \<or> \<not> valid_time_in_force tif_in \<or> \<not> valid_order_type order_type \<or>
      missing_price_field order_type limit_price stop_price trail_price trail_percent"
  from build_stock_order_rejects [OF this] obtain msg where
    "build_stock_order now ticker sd qty order_type tif_in
        limit_price stop_price trail_price trail_percent extended_hours client_order_id = Inl msg" by blast
  then show "\<exists>msg. place_stock_order stock_client now ticker sd qty order_type tif_in
        limit_price stop_price trail_price trail_percent extended_hours client_order_id = (Message msg, [])"
    by (simp add: place_stock_order_rejected)
next
  assume "legs = [] \<or> 4 < length legs \<or> quantity \<le> 0 \<or> time_in_force \<noteq> DAY \<or>
      \<not> valid_order_class order_cls \<or> \<not> list_all valid_leg legs"
  then show "\<exists>msg. place_option_market_order trade_client now legs order_cls quantity time_in_force extended_hours = (Inr (Message msg), [])"
    by (rule place_option_rejects)
qed

theorem validation_before_submission_witness:
  "(\<exists>msg. place_stock_order (\<lambda>r. Inl (APIError ''rejected'') :: exn + unit) 0 ''AAPL'' ''buy'' 10
       ''limit'' (TifStr ''day'') None None None None False None = (Message msg, [])) \<and>
   (\<exists>msg. place_option_market_order (\<lambda>r. Inl (APIError ''rejected'') :: exn + unit) 0
       [\<lparr>symbol = ''XYZ230616C00150000'', side = ''buy'', ratio_qty = PyInt 1\<rparr>,
        \<lparr>symbol = ''XYZ230616C00155000'', side = ''sell'', ratio_qty = PyFloat 1.5\<rparr>]
       (ClassStr ''mleg'') 1 DAY False = (Inr (Message msg), []))"
proof -
  let ?client = "\<lambda>r. Inl (APIError ''rejected'') :: exn + unit"
  let ?legs = "[\<lparr>symbol = ''XYZ230616C00150000'', side = ''buy'', ratio_qty = PyInt 1\<rparr>,
        \<lparr>symbol = ''XYZ230616C00155000'', side = ''sell'', ratio_qty = PyFloat 1.5\<rparr>]"
  have m: "missing_price_field ''limit'' None None None None"
    by (simp add: missing_price_field_def upper_eval)
  have l: "\<not> list_all valid_leg ?legs"
    by (simp add: valid_leg_def)
  note t = validation_before_submission [where stock_client = ?client and now = 0
      and ticker = "''AAPL''" and sd = "''buy''" and qty = 10 and order_type = "''limit''"
      and tif_in = "TifStr ''day''" and limit_price = None and stop_price = None
      and trail_price = None and trail_percent = None and extended_hours = False
      and client_order_id = None and trade_client = ?client and legs = ?legs
      and order_cls = "ClassStr ''mleg''" and quantity = 1 and time_in_force = DAY]
  from t [THEN conjunct1] m
  have "\<exists>msg. place_stock_order ?client 0 ''AAPL'' ''buy'' 10
       ''limit'' (TifStr ''day'') None None None None False None = (Message msg, [])" by blast
  moreover from t [THEN conjunct2] l
  have "\<exists>msg. place_option_market_order ?client 0 ?legs (ClassStr ''mleg'') 1 DAY False
      = (Inr (Message msg), [])" by blast
  ultimately show ?thesis by simp
qed

subsection \<open>Several legs under another order class\<close>

lemma place_option_submits:
  assumes "validate_option_order_inputs legs quantity time_in_force = None"
    and "convert_order_class_string order_cls = Inr (Some c)"
    and "process_option_legs legs = Inr order_legs"
    and "create_option_market_order_request now order_legs c quantity time_in_force extended_hours
           = Inr order_data"
  shows "snd (place_option_market_order trade_client now legs order_cls quantity time_in_force
           extended_hours) = [order_data]"
proof (cases "trade_client order_data")
  case (Inr order)
  with assms show ?thesis by (simp add: place_option_market_order_def)
next
  case (Inl e)
  with assms show ?thesis
    by (cases e) (simp_all add: place_option_market_order_def split: sum.splits)
qed

text \<open>
  C10. A call with more than one leg and an explicit order class other than MLEG that
  passes the validation submits exactly one request: a market order with the symbol
  and the side of the first leg, the order class given, and no leg list. The legs
  after the first do not occur in it.
\<close>

theorem non_mleg_uses_first_leg:
  assumes "rest \<noteq> []"
    and "convert_order_class_string order_cls = Inr (Some c)" and "c \<noteq> MLEG"
    and "length (leg0 # rest) \<le> 4" and "0 < quantity" and "time_in_force = DAY"
    and "list_all valid_leg (leg0 # rest)"
  shows "snd (place_option_market_order trade_client now (leg0 # rest) order_cls quantity
            time_in_force extended_hours) =
         [MarketOrderRequest
            \<lparr>req_symbol = Some (symbol leg0), req_qty = of_int quantity,
             req_side = Some (side_of (side leg0)), req_type = MARKET,
             req_time_in_force = time_in_force, req_extended_hours = extended_hours,
             req_client_order_id = ''mcp_opt_'' @ str_int now,
             req_order_class = Some c, req_legs = None\<rparr>]"
proof -
  from assms(4-6) have v: "validate_option_order_inputs (leg0 # rest) quantity time_in_force = None"
    by (simp add: validate_none_iff)
  from assms(7) have p: "process_option_legs (leg0 # rest) = Inr (map leg_request (leg0 # rest))"
    by (rule process_option_legs_valid)
  from assms(3) have
    "create_option_market_order_request now (map leg_request (leg0 # rest)) c quantity
        time_in_force extended_hours =
     Inr (MarketOrderRequest
            \<lparr>req_symbol = Some (symbol leg0), req_qty = of_int quantity,
             req_side = Some (side_of (side leg0)), req_type = MARKET,
             req_time_in_force = time_in_force, req_extended_hours = extended_hours,
             req_client_order_id = ''mcp_opt_'' @ str_int now,
             req_order_class = Some c, req_legs = None\<rparr>)"
    by (simp add: create_option_market_order_request_def py_index_def leg_request_def)
  from place_option_submits [OF v assms(2) p this] show ?thesis .
qed

theorem non_mleg_uses_first_leg_witness:
  "snd (place_option_market_order (\<lambda>r. Inl (APIError ''rejected'') :: exn + unit) 0
       [\<lparr>symbol = ''XYZ230616C00150000'', side = ''buy'', ratio_qty = PyInt 1\<rparr>,
        \<lparr>symbol = ''XYZ230616C00155000'', side = ''sell'', ratio_qty = PyInt 1\<rparr>]
       (ClassStr ''simple'') 2 DAY False) =
   [MarketOrderRequest
      \<lparr>req_symbol = Some ''XYZ230616C00150000'', req_qty = 2, req_side = Some BUY,
       req_type = MARKET, req_time_in_force = DAY, req_extended_hours = False,
       req_client_order_id = ''mcp_opt_0'', req_order_class = Some SIMPLE, req_legs = None\<rparr>]"
proof -
  let ?l0 = "\<lparr>symbol = ''XYZ230616C00150000'', side = ''buy'', ratio_qty = PyInt 1\<rparr>"
  let ?rest = "[\<lparr>symbol = ''XYZ230616C00155000'', side = ''sell'', ratio_qty = PyInt 1\<rparr>]"
  have a: "?rest \<noteq> []" by simp
  have b: "convert_order_class_string (ClassStr ''simple'') = Inr (Some SIMPLE)"
    by (simp add: convert_order_class_string_def class_mapping_def upper_eval)
  have c: "SIMPLE \<noteq> MLEG" by simp
  have d: "length (?l0 # ?rest) \<le> 4" by simp
  have e: "(0::int) < 2" by simp
  have f: "list_all valid_leg (?l0 # ?rest)"
    by (simp add: valid_leg_def valid_side_def lower_eval)
  from non_mleg_uses_first_leg [OF a b c d e refl f,
      of "\<lambda>r. Inl (APIError ''rejected'') :: exn + unit" 0 False]
  show ?thesis by (simp add: side_of_def lower_eval str_int_def)
qed

subsection \<open>Failure messages\<close>

lemmas recognisable_eval = recognisable_def failure_prefixes_def is_space_def

lemma recognisable_templates:
  "recognisable get_short_straddle_error_message"
  "recognisable get_short_strangle_error_message"
  "recognisable get_short_calendar_error_message"
  "recognisable get_uncovered_options_error_message"
  "recognisable (permission_denied_message m)"
  "recognisable (order_failure_message m)"
  "recognisable (unexpected_error_message m)"
  by (simp_all add: recognisable_eval get_short_straddle_error_message_def
      get_short_strangle_error_message_def get_short_calendar_error_message_def
      get_uncovered_options_error_message_def permission_denied_message_def
      order_failure_message_def unexpected_error_message_def)

lemma recognisable_stock:
  "recognisable (''Invalid order side: '' @ x @ y)"
  "recognisable (''Invalid time_in_force: '' @ x @ y)"
  "recognisable (''Invalid time_in_force type: '' @ x @ y)"
  "recognisable (''Invalid order type: '' @ x @ y)"
  "recognisable (''Error placing order: '' @ x)"
  "recognisable ''limit_price is required for LIMIT orders.''"
  "recognisable ''stop_price is required for STOP orders.''"
  "recognisable ''Both stop_price and limit_price are required for STOP_LIMIT orders.''"
  "recognisable ''Either trail_price or trail_percent is required for TRAILING_STOP orders.''"
  by (simp_all add: recognisable_eval)

lemma recognisable_option:
  "recognisable ''Error: No option legs provided''"
  "recognisable ''Error: Maximum of 4 legs allowed for option orders''"
  "recognisable ''Error: Quantity must be positive''"
  "recognisable ''Error: Only DAY time_in_force is supported for options trading''"
  "recognisable (''Invalid order class: '' @ x @ y)"
  "recognisable (''Error: Invalid ratio_qty for leg '' @ x @ y)"
  by (simp_all add: recognisable_eval)


lemma order_data_market:
  "upper order_type = ''MARKET'' \<Longrightarrow> \<exists>req. order_data_for_type now ticker order_side qty order_type tif_enum
        limit_price stop_price trail_price trail_percent extended_hours client_order_id = Inr req"
  by (simp add: order_data_for_type_def Let_def)

lemma order_data_trailing:
  "upper order_type = ''TRAILING_STOP'' \<Longrightarrow>
   order_data_for_type now ticker order_side qty order_type tif_enum
        limit_price stop_price trail_price trail_percent extended_hours client_order_id =
     (if trail_price = None \<and> trail_percent = None
      then Inl ''Either trail_price or trail_percent is required for TRAILING_STOP orders.''
      else Inr (TrailingStopOrderRequest
         \<lparr>req_symbol = Some ticker, req_qty = qty, req_side = Some order_side,
          req_type = TRAILING_STOP, req_time_in_force = tif_enum, req_extended_hours = extended_hours,
          req_client_order_id = client_order_id_or_default client_order_id now,
          req_order_class = None, req_legs = None\<rparr> trail_price trail_percent))"
  by (simp add: order_data_for_type_def Let_def)

lemma order_data_message:
  assumes "order_data_for_type now ticker order_side qty order_type tif_enum
        limit_price stop_price trail_price trail_percent extended_hours client_order_id = Inl msg"
  shows "recognisable msg"
proof (cases "valid_order_type order_type")
  case False
  from order_data_invalid_type [OF this] assms show ?thesis
    by (auto simp: recognisable_eval)
next
  case True
  then consider "upper order_type = ''MARKET''" | "upper order_type = ''LIMIT''"
    | "upper order_type = ''STOP''" | "upper order_type = ''STOP_LIMIT''"
    | "upper order_type = ''TRAILING_STOP''"
    unfolding valid_order_type_def by auto
  then show ?thesis
  proof cases
    case 1
    from order_data_market [OF this] assms show ?thesis by (metis Inl_Inr_False)
  next
    case 2
    from assms show ?thesis unfolding order_data_limit [OF 2]
      by (auto simp: recognisable_eval split: option.splits)
  next
    case 3
    from assms show ?thesis unfolding order_data_stop [OF 3]
      by (auto simp: recognisable_eval split: option.splits)
  next
    case 4
    from assms show ?thesis unfolding order_data_stop_limit [OF 4]
      by (auto simp: recognisable_eval split: option.splits)
  next
    case 5
    from assms show ?thesis unfolding order_data_trailing [OF 5]
      by (auto simp: recognisable_eval split: if_splits)
  qed
qed

lemma build_stock_order_message:
  assumes "build_stock_order now ticker sd qty order_type tif_in
        limit_price stop_price trail_price trail_percent extended_hours client_order_id = Inl msg"
  shows "recognisable msg"
proof (cases "valid_side sd")
  case False
  with assms show ?thesis
    by (auto simp: build_stock_order_def valid_side_def recognisable_eval)
next
  case vs: True
  show ?thesis
  proof (cases "valid_time_in_force tif_in")
    case False
    with vs assms show ?thesis
      by (cases tif_in)
         (auto simp: build_stock_order_def valid_side_def valid_time_in_force_def Let_def
            recognisable_eval)
  next
    case True
    with vs build_stock_order_valid obtain t where
      "build_stock_order now ticker sd qty order_type tif_in
        limit_price stop_price trail_price trail_percent extended_hours client_order_id =
         order_data_for_type now ticker (side_of sd) qty order_type t
           limit_price stop_price trail_price trail_percent extended_hours client_order_id"
      by blast
    with assms show ?thesis by (auto dest: order_data_message)
  qed
qed

lemma stock_reply_recognisable:
  "fst (place_stock_order stock_client now ticker sd qty order_type tif_in
        limit_price stop_price trail_price trail_percent extended_hours client_order_id) = Message msg \<Longrightarrow> recognisable msg"
  by (auto simp: place_stock_order_def recognisable_eval dest: build_stock_order_message
      split: sum.splits)

lemma validate_message:
  "validate_option_order_inputs legs quantity time_in_force = Some e \<Longrightarrow> recognisable e"
  by (auto simp: validate_option_order_inputs_def recognisable_eval split: if_splits)

lemma convert_message:
  "convert_order_class_string order_cls = Inl msg \<Longrightarrow> recognisable msg"
  by (cases order_cls)
     (auto simp: convert_order_class_string_def recognisable_eval split: option.splits)

lemma process_loop_message:
  "process_option_legs_loop acc legs = Inl msg \<Longrightarrow> recognisable msg"
proof (induction legs arbitrary: acc)
  case Nil
  then show ?case by simp
next
  case (Cons l rest)
  then show ?case
    by (auto simp: recognisable_eval split: if_splits)
qed

lemma handle_recognisable:
  "\<exists>s. handle_option_api_error m order_legs c = Inr s \<and> recognisable s"
proof -
  obtain x y z where "analyze_option_strategy_type order_legs c = Inr (x, y, z)"
    using analyze_returns by blast
  then show ?thesis
    by (simp add: handle_option_api_error_def recognisable_templates)
qed

lemma option_reply_recognisable:
  "\<exists>r. fst (place_option_market_order trade_client now legs order_cls quantity time_in_force extended_hours) = Inr r \<and>
     (\<forall>msg. r = Message msg \<longrightarrow> recognisable msg)"
proof (cases "validate_option_order_inputs legs quantity time_in_force")
  case (Some e)
  then show ?thesis by (simp add: place_option_market_order_def validate_message)
next
  case None
  show ?thesis
  proof (cases "convert_order_class_string order_cls")
    case (Inl msg)
    with None show ?thesis by (simp add: place_option_market_order_def convert_message)
  next
    case (Inr converted)
    let ?c = "case converted of Some c \<Rightarrow> c | None \<Rightarrow> if length legs > 1 then MLEG else SIMPLE"
    show ?thesis
    proof (cases "process_option_legs legs")
      case (Inl msg)
      then have "recognisable msg" by (simp add: process_option_legs_def process_loop_message)
      with None Inr Inl show ?thesis by (simp add: place_option_market_order_def)
    next
      case ol: (Inr order_legs)
      show ?thesis
      proof (cases "create_option_market_order_request now order_legs ?c quantity time_in_force extended_hours")
        case (Inl e)
        with None Inr ol show ?thesis
          by (simp add: place_option_market_order_def recognisable_templates)
      next
        case od: (Inr order_data)
        show ?thesis
        proof (cases "trade_client order_data")
          case (Inr order)
          with None \<open>convert_order_class_string order_cls = Inr converted\<close> ol od show ?thesis
            by (simp add: place_option_market_order_def)
        next
          case (Inl e)
          obtain s where s: "handle_option_api_error (exn_str e) order_legs ?c = Inr s" "recognisable s"
            using handle_recognisable by blast
          from Inl None \<open>convert_order_class_string order_cls = Inr converted\<close> ol od s
          show ?thesis
            by (cases e) (simp_all add: place_option_market_order_def recognisable_templates)
        qed
      qed
    qed
  qed
qed

text \<open>
  C8, as amended. Neither tool lets an exception reach the caller: the stock tool
  always returns its reply, and the option tool returns one for every client, also
  when \<open>submit_order\<close> raises. A reply on a failure path is a message that begins,
  after any leading white space, with one of the fixed beginnings \<open>failure_prefixes\<close>:
  \<open>Error: \<close>, \<open>Error placing order: \<close>, \<open>Error placing option order: \<close>,
  \<open>Unexpected error placing option order: \<close>, \<open>Invalid ...\<close> for a side, time in
  force, order type or order class, or the name of the required price field.
\<close>

theorem failure_replies_recognisable:
  "(\<forall>msg. fst (place_stock_order stock_client now ticker sd qty order_type tif_in
        limit_price stop_price trail_price trail_percent extended_hours client_order_id) = Message msg \<longrightarrow> recognisable msg) \<and>
   (\<exists>r. fst (place_option_market_order trade_client now legs order_cls quantity time_in_force extended_hours) = Inr r \<and>
      (\<forall>msg. r = Message msg \<longrightarrow> recognisable msg))"
proof (rule conjI)
  show "\<forall>msg. fst (place_stock_order stock_client now ticker sd qty order_type tif_in
        limit_price stop_price trail_price trail_percent extended_hours client_order_id) = Message msg \<longrightarrow> recognisable msg"
    by (intro allI impI) (rule stock_reply_recognisable)
  show "\<exists>r. fst (place_option_market_order trade_client now legs order_cls quantity time_in_force extended_hours) = Inr r \<and>
      (\<forall>msg. r = Message msg \<longrightarrow> recognisable msg)"
    by (rule option_reply_recognisable)
qed


theorem failure_replies_recognisable_witness:
  "recognisable ''Error placing order: rejected'' \<and>
   recognisable (order_failure_message ''rejected'')"
proof -
  let ?client = "\<lambda>r. Inl (APIError ''rejected'') :: exn + unit"
  let ?legs = "[\<lparr>symbol = ''XYZ230616C00150000'', side = ''buy'', ratio_qty = PyInt 1\<rparr>]"
  have s: "fst (place_stock_order ?client 0 ''AAPL'' ''buy'' 10 ''market'' (TifStr ''day'')
        None None None None False None) = Message ''Error placing order: rejected''"
    by (simp add: place_stock_order_def build_stock_order_def order_data_for_type_def
        lower_eval upper_eval)
  have o: "fst (place_option_market_order ?client 0 ?legs ClassNone 1 DAY False)
      = Inr (Message (order_failure_message ''rejected''))"
    by (simp add: place_option_market_order_def validate_option_order_inputs_def
        convert_order_class_string_def process_option_legs_def
        create_option_market_order_request_def py_index_def handle_option_api_error_def lower_eval)
  note t = failure_replies_recognisable [where stock_client = ?client and now = 0
      and ticker = "''AAPL''" and sd = "''buy''" and qty = 10 and order_type = "''market''"
      and tif_in = "TifStr ''day''" and limit_price = None and stop_price = None
      and trail_price = None and trail_percent = None and extended_hours = False
      and client_order_id = None and trade_client = ?client and legs = ?legs
      and order_cls = ClassNone and quantity = 1 and time_in_force = DAY]
  from t [THEN conjunct1, rule_format, OF s]
  have "recognisable ''Error placing order: rejected''" .
  moreover from t [THEN conjunct2] o
  have "recognisable (order_failure_message ''rejected'')" by auto
  ultimately show ?thesis by simp
qed

text \<open>The claim as stated fails: the message for an invalid side does not begin with
  \<open>Error:\<close>.\<close>

theorem invalid_side_message_counterexample:
  "place_stock_order (\<lambda>r. Inl (APIError ''rejected'') :: exn + unit) 0 ''AAPL'' ''hold'' 10 ''market''
       (TifStr ''day'') None None None None False None
     = (Message ''Invalid order side: hold. Must be 'buy' or 'sell'.'', []) \<and>
   \<not> startswith ''Error:'' ''Invalid order side: hold. Must be 'buy' or 'sell'.''"
  by (simp add: place_stock_order_def build_stock_order_def lower_eval)

end
